theory Spec2Isabelle
  imports Complex_Main "HOL-Library.AList"
begin

text \<open>
  A model of the progress engine of the construction dashboard: the normalisation of
  Hebrew status texts, the scoring of a work item, the validation of the configuration,
  the weighted aggregation over categories, and the item histories that the statistics and
  timeline routes fold out of the reports. Each definition follows one function or one
  loop body of the TypeScript sources and keeps its name.
\<close>

section \<open>JavaScript strings\<close>

text \<open>
  A JavaScript string is a sequence of UTF-16 code units. The status and keyword tables of
  the application are Hebrew (U+05D0 .. U+05EA, one code unit per letter) with a few
  lower-case ASCII words, so a string is modelled as the list of its code units. Every
  letter that occurs in a table gets a name, so that the tables below can be read against
  the source.
\<close>

type_synonym jsstring = "nat list"

abbreviation SP :: nat where "SP \<equiv> 32"
abbreviation Comma :: nat where "Comma \<equiv> 44"
abbreviation Hyphen :: nat where "Hyphen \<equiv> 45"
abbreviation Alef :: nat where "Alef \<equiv> 1488"
abbreviation Bet :: nat where "Bet \<equiv> 1489"
abbreviation Gimel :: nat where "Gimel \<equiv> 1490"
abbreviation Dalet :: nat where "Dalet \<equiv> 1491"
abbreviation He :: nat where "He \<equiv> 1492"
abbreviation Vav :: nat where "Vav \<equiv> 1493"
abbreviation Zayin :: nat where "Zayin \<equiv> 1494"
abbreviation Het :: nat where "Het \<equiv> 1495"
abbreviation Tet :: nat where "Tet \<equiv> 1496"
abbreviation Yod :: nat where "Yod \<equiv> 1497"
abbreviation FinalKaf :: nat where "FinalKaf \<equiv> 1498"
abbreviation Kaf :: nat where "Kaf \<equiv> 1499"
abbreviation Lamed :: nat where "Lamed \<equiv> 1500"
abbreviation FinalMem :: nat where "FinalMem \<equiv> 1501"
abbreviation Mem :: nat where "Mem \<equiv> 1502"
abbreviation FinalNun :: nat where "FinalNun \<equiv> 1503"
abbreviation Nun :: nat where "Nun \<equiv> 1504"
abbreviation Samekh :: nat where "Samekh \<equiv> 1505"
abbreviation Ayin :: nat where "Ayin \<equiv> 1506"
abbreviation FinalPe :: nat where "FinalPe \<equiv> 1507"
abbreviation Pe :: nat where "Pe \<equiv> 1508"
abbreviation FinalTsadi :: nat where "FinalTsadi \<equiv> 1509"
abbreviation Tsadi :: nat where "Tsadi \<equiv> 1510"
abbreviation Qof :: nat where "Qof \<equiv> 1511"
abbreviation Resh :: nat where "Resh \<equiv> 1512"
abbreviation Shin :: nat where "Shin \<equiv> 1513"
abbreviation Tav :: nat where "Tav \<equiv> 1514"

definition ascii :: "string \<Rightarrow> jsstring" where
  "ascii s = map of_char s"

text \<open>
  \<open>String.prototype.toLowerCase\<close>: the Basic Latin capitals are mapped to their small
  letters. Hebrew has no case, so every other code unit that occurs in the tables is left
  as it is; case mappings outside Basic Latin are not modelled.
\<close>

definition lowerUnit :: "nat \<Rightarrow> nat" where
  "lowerUnit c = (if 65 \<le> c \<and> c \<le> 90 then c + 32 else c)"

definition toLowerCase :: "jsstring \<Rightarrow> jsstring" where
  "toLowerCase s = map lowerUnit s"

text \<open>\<open>String.prototype.trim\<close> removes white space and line terminators at both ends.\<close>

definition isWhiteSpace :: "nat \<Rightarrow> bool" where
  "isWhiteSpace c = (c \<in> set [9, 10, 11, 12, 13, 32, 160, 5760, 8232, 8233, 8239, 8287, 12288, 65279]
                     \<or> (8192 \<le> c \<and> c \<le> 8202))"

definition trim :: "jsstring \<Rightarrow> jsstring" where
  "trim s = rev (dropWhile isWhiteSpace (rev (dropWhile isWhiteSpace s)))"

text \<open>\<open>s.includes(k)\<close>: \<open>k\<close> occurs in \<open>s\<close> as a contiguous run of code units.\<close>

fun startsWith :: "jsstring \<Rightarrow> jsstring \<Rightarrow> bool" where
  "startsWith s [] = True"
| "startsWith [] (k # ks) = False"
| "startsWith (c # cs) (k # ks) = (c = k \<and> startsWith cs ks)"

fun js_includes :: "jsstring \<Rightarrow> jsstring \<Rightarrow> bool" where
  "js_includes [] k = (k = [])"
| "js_includes (c # cs) k = (startsWith (c # cs) k \<or> js_includes cs k)"


section \<open>Status mapper (module lib/status-mapper)\<close>

text \<open>
  The enum \<open>WorkStatus\<close>. The routes read the status column of a work item as a plain
  string and cast it (\<open>status as WorkStatus\<close>); \<open>UNRECOGNIZED\<close> stands for any
  string that is not one of the eight enum values, which the scorers handle in their last
  branch.
\<close>

datatype WorkStatus =
    COMPLETED | COMPLETED_OK | NOT_OK | DEFECT | IN_PROGRESS | HANDLED | PENDING | NOT_STARTED
  | UNRECOGNIZED

text \<open>The table \<open>hebrewStatusMap\<close>, in the order in which the source lists its keys.\<close>

definition hebrewStatusMap :: "(jsstring \<times> WorkStatus) list" where
  "hebrewStatusMap = [
   ([Bet, Vav, Tsadi, Ayin], COMPLETED),
   ([Bet, Vav, Tsadi, Ayin, SP, Hyphen, SP, Tav, Qof, Yod, FinalNun], COMPLETED_OK),
   ([Tav, Qof, Yod, FinalNun], COMPLETED_OK),
   ([Lamed, Alef, SP, Tav, Qof, Yod, FinalNun], NOT_OK),
   ([Lamed, Yod, Qof, Vav, Yod], DEFECT),
   ([Bet, Tet, Yod, Pe, Vav, Lamed], IN_PROGRESS),
   ([Tet, Vav, Pe, Lamed], HANDLED),
   ([Mem, Mem, Tav, Yod, FinalNun], PENDING),
   ([Lamed, Alef, SP, He, Tav, Het, Yod, Lamed], NOT_STARTED),
   ([Bet, Bet, Yod, Tsadi, Vav, Ayin], IN_PROGRESS),
   ([He, Vav, Shin, Lamed, FinalMem], COMPLETED),
   ([Nun, Mem, Tsadi, Alef, SP, Lamed, Yod, Qof, Vav, Yod], DEFECT),
   ([Tav, Vav, Qof, FinalNun], HANDLED),
   ([Qof, Yod, Yod, Mem, Yod, FinalMem, SP, Alef, Yod, SP, Tav, Alef, Vav, Mem, Yod, FinalMem], DEFECT),
   ([Qof, Yod, Yod, Mem, Yod, FinalMem, SP, Alef, Yod, SP, Tav, Yod, Alef, Vav, Mem, Yod, FinalMem], DEFECT),
   ([Alef, Yod, SP, Tav, Alef, Vav, Mem, Yod, FinalMem], DEFECT),
   ([Alef, Yod, SP, Tav, Yod, Alef, Vav, Mem, Yod, FinalMem], DEFECT),
   ([Yod, Shin, SP, He, Ayin, Resh, Vav, Tav], DEFECT),
   ([Bet, Vav, Tsadi, Ayin, SP, Hyphen, SP, Yod, Shin, SP, He, Ayin, Resh, Vav, Tav], DEFECT),
   ([Bet, Vav, Tsadi, Ayin, SP, Hyphen, SP, Yod, Shin, SP, Lamed, Yod, Qof, Vav, Yod, Yod, FinalMem], DEFECT),
   ([Bet, Vav, Tsadi, Ayin, SP, Hyphen, SP, Nun, Mem, Tsadi, Alef, Vav, SP, Alef, Yod, SP, Tav, Alef, Vav, Mem, Yod, FinalMem], DEFECT),
   ([Bet, Vav, Tsadi, Ayin, SP, Hyphen, SP, Nun, Mem, Tsadi, Alef, Vav, SP, Alef, Yod, SP, Tav, Yod, Alef, Vav, Mem, Yod, FinalMem], DEFECT),
   ([Nun, Mem, Tsadi, Alef, Vav, SP, Alef, Yod, SP, Tav, Alef, Vav, Mem, Yod, FinalMem], DEFECT),
   ([Nun, Mem, Tsadi, Alef, Vav, SP, Alef, Yod, SP, Tav, Yod, Alef, Vav, Mem, Yod, FinalMem], DEFECT),
   ([Bet, Vav, Tsadi, Ayin, SP, Het, Lamed, Qof, Yod], DEFECT),
   ([Bet, Vav, Tsadi, Ayin, SP, Het, Lamed, Qof, Yod, Tav], DEFECT),
   ([Lamed, Tet, Yod, Pe, Vav, Lamed], PENDING),
   ([Nun, Dalet, Resh, Shin, SP, Mem, Ayin, Qof, Bet], PENDING),
   ([Nun, Dalet, Resh, Shin, SP, Bet, Yod, Tsadi, Vav, Ayin], PENDING),
   ([Bet, Vav, Tsadi, Ayin, SP, Ayin, FinalMem, SP, He, Ayin, Resh, Vav, Tav], DEFECT)]"

text \<open>
  \<open>normalizeStatus\<close> of the status mapper: an exact lookup of the trimmed text, then the
  first key, in table order, that the trimmed text contains, then \<open>IN_PROGRESS\<close> (the
  source also logs a warning there). The lookup reads own properties of the table only.
\<close>

definition normalizeStatus :: "jsstring \<Rightarrow> WorkStatus" where
  "normalizeStatus hebrewStatus =
     (let trimmed = trim hebrewStatus in
      case map_of hebrewStatusMap trimmed of
        Some status \<Rightarrow> status
      | None \<Rightarrow>
          (case find (\<lambda>(hebrew, status). js_includes trimmed hebrew) hebrewStatusMap of
             Some (hebrew, status) \<Rightarrow> status
           | None \<Rightarrow> IN_PROGRESS))"

definition isPositiveStatus :: "WorkStatus \<Rightarrow> bool" where
  "isPositiveStatus status = (status = COMPLETED \<or> status = COMPLETED_OK \<or> status = HANDLED)"

definition isNegativeStatus :: "WorkStatus \<Rightarrow> bool" where
  "isNegativeStatus status = (status = NOT_OK \<or> status = DEFECT)"

definition NEGATIVE_KEYWORDS :: "jsstring list" where
  "NEGATIVE_KEYWORDS = [
   [Alef, Yod, SP, Tav, Yod, Alef, Vav, Mem, Yod, FinalMem],
   [Alef, Yod, SP, Tav, Alef, Vav, Mem, Yod, FinalMem],
   [Nun, Mem, Tsadi, Alef, Vav, SP, Alef, Yod],
   [Qof, Yod, Yod, Mem, Yod, FinalMem, SP, Alef, Yod],
   [Yod, Shin, SP, He, Ayin, Resh, Vav, Tav],
   [Yod, Shin, SP, Lamed, Yod, Qof, Vav, Yod, Yod, FinalMem],
   [Lamed, Yod, Qof, Vav, Yod],
   [Lamed, Yod, Qof, Vav, Yod, Yod, FinalMem],
   [Lamed, Alef, SP, Tav, Qof, Yod, FinalNun],
   [Het, Samekh, Resh],
   [Het, Samekh, Resh, Vav, Tav],
   [Het, Samekh, Resh, Yod, FinalMem],
   [Het, Samekh, Resh, He],
   [Shin, Bet, Vav, Resh],
   [Shin, Bet, Vav, Resh, Yod, FinalMem],
   [Shin, Bet, Vav, Resh, He],
   [Samekh, Dalet, Vav, Qof],
   [Samekh, Dalet, Vav, Qof, Yod, FinalMem],
   [Pe, Gimel, FinalMem],
   [Pe, Gimel, Mem, Yod, FinalMem],
   [Bet, Ayin, Yod, He],
   [Bet, Ayin, Yod, Vav, Tav],
   [Lamed, Tav, Qof, FinalNun],
   [Tav, Yod, Qof, Vav, FinalNun],
   [Tav, Yod, Qof, Vav, Nun, Yod, FinalMem],
   [Lamed, Alef, SP, Bet, Vav, Tsadi, Ayin],
   [Lamed, Alef, SP, He, Vav, Tav, Qof, FinalNun],
   [Lamed, Alef, SP, He, Vav, Tav, Qof, Nun, Vav],
   [Lamed, Alef, SP, He, Vav, Shin, Lamed, FinalMem],
   [Nun, Zayin, Qof],
   [Nun, Zayin, Qof, Yod, FinalMem],
   ascii ''missing'',
   ascii ''defect'',
   [Het, Tav, Vav, FinalKaf],
   [Lamed, He, Het, Lamed, Yod, FinalPe]]"

text \<open>\<open>notes\<close> is \<open>string | null | undefined\<close>; an empty string is falsy as well.\<close>

definition hasNegativeNotes :: "jsstring option \<Rightarrow> bool" where
  "hasNegativeNotes notes =
     (case notes of
        None \<Rightarrow> False
      | Some n \<Rightarrow>
          if n = [] then False
          else list_ex (\<lambda>keyword. js_includes (toLowerCase n) (toLowerCase keyword)) NEGATIVE_KEYWORDS)"

definition getEffectiveStatus :: "WorkStatus \<Rightarrow> jsstring option \<Rightarrow> WorkStatus" where
  "getEffectiveStatus status notes =
     (if isNegativeStatus status then status
      else if isPositiveStatus status \<and> hasNegativeNotes notes then DEFECT
      else status)"

definition isTrulyCompleted :: "WorkStatus \<Rightarrow> jsstring option \<Rightarrow> bool" where
  "isTrulyCompleted status notes = (isPositiveStatus status \<and> \<not> hasNegativeNotes notes)"


section \<open>Status normalisation of the upload route\<close>

text \<open>
  The route that ingests an uploaded report carries its own copy of the status table and its own
  \<open>normalizeStatus\<close>, which takes the notes as well: a scan for defect keywords over
  status and notes, then partial-work keywords, then the exact lookup, then the keys
  contained in the text, longest key first.
\<close>

definition route_hebrewStatusMap :: "(jsstring \<times> WorkStatus) list" where
  "route_hebrewStatusMap = [
   ([Bet, Vav, Tsadi, Ayin], COMPLETED),
   ([Bet, Vav, Tsadi, Ayin, SP, Hyphen, SP, Tav, Qof, Yod, FinalNun], COMPLETED_OK),
   ([Tav, Qof, Yod, FinalNun], COMPLETED_OK),
   ([Lamed, Alef, SP, Tav, Qof, Yod, FinalNun], NOT_OK),
   ([Lamed, Yod, Qof, Vav, Yod], DEFECT),
   ([Bet, Tet, Yod, Pe, Vav, Lamed], IN_PROGRESS),
   ([Tet, Vav, Pe, Lamed], HANDLED),
   ([Mem, Mem, Tav, Yod, FinalNun], PENDING),
   ([Lamed, Alef, SP, He, Tav, Het, Yod, Lamed], NOT_STARTED),
   ([Bet, Bet, Yod, Tsadi, Vav, Ayin], IN_PROGRESS),
   ([He, Vav, Shin, Lamed, FinalMem], COMPLETED),
   ([Nun, Mem, Tsadi, Alef, SP, Lamed, Yod, Qof, Vav, Yod], DEFECT),
   ([Tav, Vav, Qof, FinalNun], HANDLED),
   ([Qof, Yod, Yod, Mem, Yod, FinalMem, SP, Alef, Yod, SP, Tav, Alef, Vav, Mem, Yod, FinalMem], DEFECT),
   ([Qof, Yod, Yod, Mem, Yod, FinalMem, SP, Alef, Yod, SP, Tav, Yod, Alef, Vav, Mem, Yod, FinalMem], DEFECT),
   ([Alef, Yod, SP, Tav, Alef, Vav, Mem, Yod, FinalMem], DEFECT),
   ([Alef, Yod, SP, Tav, Yod, Alef, Vav, Mem, Yod, FinalMem], DEFECT),
   ([Yod, Shin, SP, He, Ayin, Resh, Vav, Tav], DEFECT),
   ([Bet, Vav, Tsadi, Ayin, SP, Hyphen, SP, Yod, Shin, SP, He, Ayin, Resh, Vav, Tav], DEFECT),
   ([Bet, Vav, Tsadi, Ayin, SP, Hyphen, SP, Yod, Shin, SP, Lamed, Yod, Qof, Vav, Yod, Yod, FinalMem], DEFECT),
   ([Bet, Vav, Tsadi, Ayin, SP, Hyphen, SP, Nun, Mem, Tsadi, Alef, Vav, SP, Alef, Yod, SP, Tav, Alef, Vav, Mem, Yod, FinalMem], DEFECT),
   ([Bet, Vav, Tsadi, Ayin, SP, Hyphen, SP, Nun, Mem, Tsadi, Alef, Vav, SP, Alef, Yod, SP, Tav, Yod, Alef, Vav, Mem, Yod, FinalMem], DEFECT),
   ([Nun, Mem, Tsadi, Alef, Vav, SP, Alef, Yod, SP, Tav, Alef, Vav, Mem, Yod, FinalMem], DEFECT),
   ([Nun, Mem, Tsadi, Alef, Vav, SP, Alef, Yod, SP, Tav, Yod, Alef, Vav, Mem, Yod, FinalMem], DEFECT),
   ([Bet, Vav, Tsadi, Ayin, SP, Het, Lamed, Qof, Yod], IN_PROGRESS),
   ([Lamed, Tet, Yod, Pe, Vav, Lamed], PENDING),
   ([Nun, Dalet, Resh, Shin, SP, Mem, Ayin, Qof, Bet], PENDING),
   ([Nun, Dalet, Resh, Shin, SP, Bet, Yod, Tsadi, Vav, Ayin], PENDING),
   ([Bet, Vav, Tsadi, Ayin, SP, Ayin, FinalMem, SP, He, Ayin, Resh, Vav, Tav], DEFECT)]"

definition DEFECT_KEYWORDS :: "jsstring list" where
  "DEFECT_KEYWORDS = [
   [Alef, Yod, SP, Tav, Yod, Alef, Vav, Mem, Yod, FinalMem],
   [Alef, Yod, SP, Tav, Alef, Vav, Mem, Yod, FinalMem],
   [Nun, Mem, Tsadi, Alef, Vav, SP, Alef, Yod],
   [Qof, Yod, Yod, Mem, Yod, FinalMem, SP, Alef, Yod],
   [Yod, Shin, SP, He, Ayin, Resh, Vav, Tav],
   [Yod, Shin, SP, Lamed, Yod, Qof, Vav, Yod, Yod, FinalMem],
   [Lamed, Yod, Qof, Vav, Yod],
   [Lamed, Yod, Qof, Vav, Yod, Yod, FinalMem],
   [Lamed, Alef, SP, Tav, Qof, Yod, FinalNun],
   [Het, Samekh, Resh],
   [Het, Samekh, Resh, He],
   [Het, Samekh, Resh, Vav, Tav],
   [Het, Samekh, Resh, Yod, FinalMem],
   [Shin, Bet, Vav, Resh],
   [Shin, Bet, Vav, Resh, He],
   [Shin, Bet, Vav, Resh, Yod, FinalMem],
   [Samekh, Dalet, Vav, Qof],
   [Samekh, Dalet, Vav, Qof, He],
   [Samekh, Dalet, Vav, Qof, Yod, FinalMem],
   [Pe, Gimel, FinalMem],
   [Pe, Gimel, Mem, Yod, FinalMem],
   [Bet, Ayin, Yod, He],
   [Bet, Ayin, Yod, Vav, Tav],
   [Lamed, Tav, Qof, FinalNun],
   [Tav, Yod, Qof, Vav, FinalNun],
   [Lamed, Alef, SP, Bet, Vav, Tsadi, Ayin],
   [Lamed, Alef, SP, He, Vav, Tav, Qof, FinalNun],
   [Lamed, Alef, SP, He, Vav, Tav, Qof, Nun, Vav],
   [Het, Tav, Vav, FinalKaf],
   [Het, Tav, Vav, Kaf, Yod, FinalMem],
   [Lamed, He, Het, Lamed, Yod, FinalPe],
   [He, Het, Lamed, Pe, He],
   [Nun, Zayin, Qof],
   [Nun, Zayin, Qof, Yod, FinalMem],
   [Lamed, Alef, SP, He, Vav, Shin, Lamed, FinalMem],
   [Tet, Ayin, Vav, FinalNun]]"

definition PARTIAL_KEYWORDS :: "jsstring list" where
  "PARTIAL_KEYWORDS = [
   [Het, Lamed, Qof, Yod],
   [Het, Lamed, Qof, Yod, Tav],
   [Bet, Bet, Yod, Tsadi, Vav, Ayin],
   [Bet, Tet, Yod, Pe, Vav, Lamed]]"

text \<open>\<open>[hebrewStatus, notes].filter(Boolean).join(' ')\<close>: null and empty parts are dropped.\<close>

definition joinTruthy :: "jsstring \<Rightarrow> jsstring option \<Rightarrow> jsstring" where
  "joinTruthy hebrewStatus notes =
     (let parts = filter (\<lambda>p. p \<noteq> []) (hebrewStatus # (case notes of None \<Rightarrow> [] | Some n \<Rightarrow> [n]))
      in case parts of
           [] \<Rightarrow> []
         | p # ps \<Rightarrow> foldl (\<lambda>acc q. acc @ [SP] @ q) p ps)"

text \<open>
  \<open>Object.entries(hebrewStatusMap).sort((a, b) => b[0].length - a[0].length)\<close>: a stable
  sort by decreasing key length.
\<close>

definition sortedEntries :: "(jsstring \<times> WorkStatus) list" where
  "sortedEntries = sort_key (\<lambda>(hebrew, status). - int (length hebrew)) route_hebrewStatusMap"

definition route_normalizeStatus :: "jsstring \<Rightarrow> jsstring option \<Rightarrow> WorkStatus" where
  "route_normalizeStatus hebrewStatus notes =
     (let trimmed = toLowerCase (trim hebrewStatus);
          combinedText = toLowerCase (joinTruthy hebrewStatus notes)
      in if list_ex (\<lambda>keyword. js_includes combinedText (toLowerCase keyword)) DEFECT_KEYWORDS then DEFECT
         else if list_ex (\<lambda>keyword. js_includes trimmed (toLowerCase keyword)) PARTIAL_KEYWORDS then IN_PROGRESS
         else case map_of route_hebrewStatusMap (trim hebrewStatus) of
                Some status \<Rightarrow> status
              | None \<Rightarrow>
                  (case find (\<lambda>(hebrew, status). js_includes trimmed (toLowerCase hebrew)) sortedEntries of
                     Some (hebrew, status) \<Rightarrow> status
                   | None \<Rightarrow> IN_PROGRESS))"

section \<open>JavaScript numbers\<close>

text \<open>
  A JavaScript number is an IEEE 754 double. A finite double is modelled by the rational
  it denotes; \<open>toDouble\<close> rounds a rational to the nearest double, ties to the even
  significand, with 53 significant bits and the exponent of the unit in the last place not
  below that of the subnormal numbers. Each arithmetic operation is the exact operation
  followed by this rounding, and a decimal literal or a number parsed from JSON is the
  rounding of its decimal value; comparisons and \<open>Math.abs\<close> are exact. Overflow to an
  infinity, \<open>NaN\<close> and the sign of zero are not modelled.
\<close>

text \<open>The number of binary digits of a natural number.\<close>

fun bitLength :: "nat \<Rightarrow> nat" where
  "bitLength n = (if n = 0 then 0 else Suc (bitLength (n div 2)))"

declare bitLength.simps [simp del]

text \<open>For \<open>x\<close> other than 0, the exponent \<open>e\<close> with \<open>2^e \<le> |x| < 2^(e+1)\<close>.\<close>

definition binade :: "rat \<Rightarrow> int" where
  "binade x =
     (if 1 \<le> \<bar>x\<bar> then int (bitLength (nat \<lfloor>\<bar>x\<bar>\<rfloor>)) - 1
      else - int (bitLength (nat (\<lceil>1 / \<bar>x\<bar>\<rceil> - 1))))"

definition pow2 :: "int \<Rightarrow> rat" where
  "pow2 q = (if 0 \<le> q then 2 ^ nat q else 1 / 2 ^ nat (- q))"

definition roundHalfEven :: "rat \<Rightarrow> int" where
  "roundHalfEven m =
     (let f = \<lfloor>m\<rfloor>; d = m - of_int f
      in if d < 1 / 2 then f
         else if d > 1 / 2 then f + 1
         else if even f then f else f + 1)"

definition toDouble :: "rat \<Rightarrow> rat" where
  "toDouble x =
     (if x = 0 then 0
      else let q = max (binade x) (- 1022) - 52
           in of_int (roundHalfEven (x / pow2 q)) * pow2 q)"

definition js_add :: "rat \<Rightarrow> rat \<Rightarrow> rat" where
  "js_add a b = toDouble (a + b)"

definition js_sub :: "rat \<Rightarrow> rat \<Rightarrow> rat" where
  "js_sub a b = toDouble (a - b)"

definition js_mul :: "rat \<Rightarrow> rat \<Rightarrow> rat" where
  "js_mul a b = toDouble (a * b)"

text \<open>Division, where the divisor is not zero.\<close>

definition js_div :: "rat \<Rightarrow> rat \<Rightarrow> rat" where
  "js_div a b = toDouble (a / b)"


section \<open>Progress configuration (module lib/progress-config)\<close>

text \<open>
  The threshold record carries the prefix \<open>T_\<close> on its field names, since four of them
  are also names of statuses.
\<close>

record ProgressThresholds =
  T_VERIFIED_NO_DEFECTS :: rat
  T_CATEGORY_GRADUATED :: rat
  T_ITEM_FIXED :: rat
  T_COMPLETED_OK_LATER :: rat
  T_COMPLETED_OK_FIRST :: rat
  T_HANDLED :: rat
  T_COMPLETED_WITH_ISSUES :: rat
  T_DEFECT_WORK_DONE :: rat
  T_IN_PROGRESS :: rat
  T_PENDING :: rat
  T_UNKNOWN :: rat
  T_NOT_STARTED :: rat
  T_CATEGORY_NEVER_SEEN :: rat

record ProgressConfig =
  categoryWeights :: "(jsstring \<times> rat) list"
  progressThresholds :: ProgressThresholds
  baselineProgress :: rat
  maxProgress :: rat
  defectPenalty :: rat
  defaultCategoryWeight :: rat
  lastUpdated :: "jsstring option"

definition DEFAULT_CONFIG :: ProgressConfig where
  "DEFAULT_CONFIG = \<lparr>
     categoryWeights = [
       (ascii ''ELECTRICAL'', 12),
       (ascii ''PLUMBING'', 10),
       (ascii ''SPRINKLERS'', 5),
       (ascii ''WATERPROOFING'', 5),
       (ascii ''DRYWALL'', 10),
       (ascii ''FLOORING'', 15),
       (ascii ''AC'', 8),
       (ascii ''PAINTING'', 10),
       (ascii ''KITCHEN'', 10),
       (ascii ''OTHER'', 15)],
     progressThresholds = \<lparr>
       T_VERIFIED_NO_DEFECTS = 90,
       T_CATEGORY_GRADUATED = 90,
       T_ITEM_FIXED = 90,
       T_COMPLETED_OK_LATER = 75,
       T_COMPLETED_OK_FIRST = 50,
       T_HANDLED = 70,
       T_COMPLETED_WITH_ISSUES = 65,
       T_DEFECT_WORK_DONE = 55,
       T_IN_PROGRESS = 30,
       T_PENDING = 15,
       T_UNKNOWN = 15,
       T_NOT_STARTED = 5,
       T_CATEGORY_NEVER_SEEN = 0\<rparr>,
     baselineProgress = 30,
     maxProgress = 95,
     defectPenalty = 5,
     defaultCategoryWeight = 10,
     lastUpdated = None\<rparr>"

text \<open>
  \<open>loadConfig\<close> reads \<open>data/progress-config.json\<close>. Its argument is what the file
  system gives: \<open>None\<close> when the file does not exist or reading or parsing it throws,
  otherwise the parsed object, taken at the type the source casts it to. The object
  spread keeps the default weights in their order, overwritten by the file's, and appends
  the file's other keys.
\<close>

definition spreadWeights :: "(jsstring \<times> rat) list \<Rightarrow> (jsstring \<times> rat) list \<Rightarrow> (jsstring \<times> rat) list" where
  "spreadWeights base over = fold (\<lambda>(k, v). AList.update k v) over base"

definition loadConfig :: "ProgressConfig option \<Rightarrow> ProgressConfig" where
  "loadConfig file =
     (case file of
        Some config \<Rightarrow>
          config\<lparr>categoryWeights :=
                   spreadWeights (categoryWeights DEFAULT_CONFIG) (categoryWeights config)\<rparr>
      | None \<Rightarrow> DEFAULT_CONFIG)"

text \<open>
  \<open>validateConfig\<close> pushes Hebrew messages onto two arrays of strings. A message is
  modelled by a constructor that names the check that pushed it and carries what the
  source interpolates into the text. The sum of the weights is accumulated from 0 in the
  order of the entries, in double arithmetic, and \<open>Math.abs(weightSum - 100) > 0.01\<close>
  compares doubles.
\<close>

datatype Message =
    WeightSumNot100 rat
  | NegativeWeight jsstring
  | ZeroWeight jsstring
  | ThresholdOutOfRange string
  | VerifiedNotAboveCompletedLater
  | CompletedLaterNotAboveCompletedFirst
  | HandledNotAboveDefect
  | DefectNotAboveInProgress
  | InProgressNotAbovePending
  | PendingNotAboveNotStarted
  | BaselineOutOfRange
  | MaxProgressOutOfRange
  | BaselineNotBelowMax
  | NegativeDefaultWeight
  | NegativeDefectPenalty

record ValidationResult =
  valid :: bool
  errors :: "Message list"
  warnings :: "Message list"

text \<open>\<open>Object.entries(config.progressThresholds)\<close>, in the order of the declaration.\<close>

definition thresholdEntries :: "ProgressThresholds \<Rightarrow> (string \<times> rat) list" where
  "thresholdEntries t = [
     (''VERIFIED_NO_DEFECTS'', T_VERIFIED_NO_DEFECTS t),
     (''CATEGORY_GRADUATED'', T_CATEGORY_GRADUATED t),
     (''ITEM_FIXED'', T_ITEM_FIXED t),
     (''COMPLETED_OK_LATER'', T_COMPLETED_OK_LATER t),
     (''COMPLETED_OK_FIRST'', T_COMPLETED_OK_FIRST t),
     (''HANDLED'', T_HANDLED t),
     (''COMPLETED_WITH_ISSUES'', T_COMPLETED_WITH_ISSUES t),
     (''DEFECT_WORK_DONE'', T_DEFECT_WORK_DONE t),
     (''IN_PROGRESS'', T_IN_PROGRESS t),
     (''PENDING'', T_PENDING t),
     (''UNKNOWN'', T_UNKNOWN t),
     (''NOT_STARTED'', T_NOT_STARTED t),
     (''CATEGORY_NEVER_SEEN'', T_CATEGORY_NEVER_SEEN t)]"

definition pushIf :: "bool \<Rightarrow> Message \<Rightarrow> Message list" where
  "pushIf b m = (if b then [m] else [])"

definition weightErrors :: "(jsstring \<times> rat) list \<Rightarrow> Message list" where
  "weightErrors ws = concat (map (\<lambda>(cat, weight). pushIf (weight < 0) (NegativeWeight cat)) ws)"

definition weightWarnings :: "(jsstring \<times> rat) list \<Rightarrow> Message list" where
  "weightWarnings ws = concat (map (\<lambda>(cat, weight). pushIf (weight = 0) (ZeroWeight cat)) ws)"

definition thresholdErrors :: "ProgressThresholds \<Rightarrow> Message list" where
  "thresholdErrors t =
     concat (map (\<lambda>(key, v). pushIf (v < 0 \<or> v > 100) (ThresholdOutOfRange key)) (thresholdEntries t))"

definition orderingWarnings :: "ProgressThresholds \<Rightarrow> Message list" where
  "orderingWarnings t =
     pushIf (T_VERIFIED_NO_DEFECTS t \<le> T_COMPLETED_OK_LATER t) VerifiedNotAboveCompletedLater
     @ pushIf (T_COMPLETED_OK_LATER t \<le> T_COMPLETED_OK_FIRST t) CompletedLaterNotAboveCompletedFirst
     @ pushIf (T_HANDLED t \<le> T_DEFECT_WORK_DONE t) HandledNotAboveDefect
     @ pushIf (T_DEFECT_WORK_DONE t \<le> T_IN_PROGRESS t) DefectNotAboveInProgress
     @ pushIf (T_IN_PROGRESS t \<le> T_PENDING t) InProgressNotAbovePending
     @ pushIf (T_PENDING t \<le> T_NOT_STARTED t) PendingNotAboveNotStarted"

definition validateConfig :: "ProgressConfig \<Rightarrow> ValidationResult" where
  "validateConfig config =
     (let weightSum = foldl js_add 0 (map snd (categoryWeights config));
          errs =
            pushIf (\<bar>js_sub weightSum 100\<bar> > toDouble (1 / 100)) (WeightSumNot100 weightSum)
            @ weightErrors (categoryWeights config)
            @ thresholdErrors (progressThresholds config)
            @ pushIf (baselineProgress config < 0 \<or> baselineProgress config > 100) BaselineOutOfRange
            @ pushIf (maxProgress config < 0 \<or> maxProgress config > 100) MaxProgressOutOfRange
            @ pushIf (baselineProgress config \<ge> maxProgress config) BaselineNotBelowMax
            @ pushIf (defaultCategoryWeight config < 0) NegativeDefaultWeight
            @ pushIf (defectPenalty config < 0) NegativeDefectPenalty;
          warns =
            weightWarnings (categoryWeights config)
            @ orderingWarnings (progressThresholds config)
      in \<lparr>valid = (errs = []), errors = errs, warnings = warns\<rparr>)"


section \<open>Progress calculator V3 (module lib/progress-calculator-v3)\<close>

text \<open>
  The calculator reads the configuration through \<open>getConfigSafe()\<close>, a cached
  \<open>loadConfig()\<close>; the functions below take that configuration as their first argument.
  The legacy export \<open>PROGRESS_THRESHOLDS\<close> is the thresholds of \<open>DEFAULT_CONFIG\<close>,
  whatever the configuration in force is.
\<close>

definition PROGRESS_THRESHOLDS :: ProgressThresholds where
  "PROGRESS_THRESHOLDS = progressThresholds DEFAULT_CONFIG"

definition VERIFICATION_KEYWORDS :: "jsstring list" where
  "VERIFICATION_KEYWORDS = [
   [Tav, Qof, Yod, FinalNun],
   [Mem, Alef, Vav, Shin, Resh],
   [Alef, Vav, Shin, Resh],
   [He, Vav, Shin, Lamed, FinalMem, SP, Bet, He, Tsadi, Lamed, Het, He],
   [Lamed, Lamed, Alef, SP, He, Ayin, Resh, Vav, Tav],
   [Lamed, Lamed, Alef, SP, Lamed, Yod, Qof, Vav, Yod, Yod, FinalMem],
   [Bet, Samekh, Dalet, Resh],
   ascii ''ok'',
   ascii ''verified'',
   ascii ''approved'']"

definition isVerified :: "jsstring option \<Rightarrow> bool" where
  "isVerified notes =
     (case notes of
        None \<Rightarrow> False
      | Some n \<Rightarrow>
          if n = [] then False
          else list_ex (\<lambda>k. js_includes (toLowerCase n) (toLowerCase k)) VERIFICATION_KEYWORDS)"

text \<open>Of \<open>ProgressContext\<close> the scorers read two optional fields only.\<close>

record ProgressContext =
  isFirstTimeSeen :: "bool option"
  previousProgress :: "rat option"

definition emptyContext :: ProgressContext where
  "emptyContext = \<lparr>isFirstTimeSeen = None, previousProgress = None\<rparr>"

record ProgressResult =
  progress :: rat
  delta :: rat
  reason :: string
  hasRegression :: bool

definition mkResult :: "rat \<Rightarrow> string \<Rightarrow> ProgressContext \<Rightarrow> ProgressResult" where
  "mkResult p r context =
     (let previous = (case previousProgress context of None \<Rightarrow> 0 | Some q \<Rightarrow> q)
      in \<lparr>progress = p, delta = js_sub p previous, reason = r, hasRegression = (p < previous)\<rparr>)"

definition calculateItemProgressV3 ::
  "ProgressConfig \<Rightarrow> WorkStatus \<Rightarrow> jsstring option \<Rightarrow> ProgressContext \<Rightarrow> ProgressResult" where
  "calculateItemProgressV3 cfg status notes context =
     (let effectiveStatus = getEffectiveStatus status notes;
          isFirstTime = (isFirstTimeSeen context \<noteq> Some False);
          thresholds = progressThresholds cfg
      in if effectiveStatus = COMPLETED_OK then
           mkResult (T_VERIFIED_NO_DEFECTS thresholds) ''verified_no_defects'' context
         else if effectiveStatus = COMPLETED then
           (if isVerified notes then
              mkResult (T_VERIFIED_NO_DEFECTS thresholds) ''verified_via_notes'' context
            else if isFirstTime then
              mkResult (T_COMPLETED_OK_FIRST thresholds) ''completed_ok_first_time'' context
            else
              mkResult (T_COMPLETED_OK_LATER thresholds) ''completed_ok_later'' context)
         else if effectiveStatus = HANDLED then
           mkResult (T_HANDLED thresholds) ''handled'' context
         else if effectiveStatus = DEFECT \<or> effectiveStatus = NOT_OK then
           mkResult (T_DEFECT_WORK_DONE thresholds) ''defect_work_done'' context
         else if effectiveStatus = IN_PROGRESS then
           mkResult (T_IN_PROGRESS thresholds) ''in_progress'' context
         else if effectiveStatus = PENDING then
           mkResult (T_PENDING thresholds) ''pending'' context
         else if effectiveStatus = NOT_STARTED then
           mkResult (T_NOT_STARTED thresholds) ''not_started'' context
         else
           mkResult (T_UNKNOWN thresholds) ''unknown_status'' context)"

text \<open>The V3 module keeps the name \<open>calculateItemProgressV2\<close> as a wrapper of V3.\<close>

definition v3_calculateItemProgressV2 ::
  "ProgressConfig \<Rightarrow> WorkStatus \<Rightarrow> jsstring option \<Rightarrow> ProgressContext \<Rightarrow> ProgressResult" where
  "v3_calculateItemProgressV2 cfg status notes context = calculateItemProgressV3 cfg status notes context"

text \<open>\<open>Math.round\<close> gives the integer nearest to a double, a half towards plus infinity.\<close>

definition Math_round :: "rat \<Rightarrow> rat" where
  "Math_round x = of_int \<lfloor>x + 1 / 2\<rfloor>"

text \<open>\<open>weights[category] || config.defaultCategoryWeight\<close>: a missing weight and a weight
  of zero are both falsy.\<close>

definition weightOf :: "ProgressConfig \<Rightarrow> jsstring \<Rightarrow> rat" where
  "weightOf cfg category =
     (case map_of (categoryWeights cfg) category of
        None \<Rightarrow> defaultCategoryWeight cfg
      | Some w \<Rightarrow> if w = 0 then defaultCategoryWeight cfg else w)"

text \<open>
  \<open>calculateOverallProgressWithAllCategories\<close>: the map of current category progress is
  read with \<open>has\<close> and \<open>get\<close> only; the set of categories ever seen is iterated in
  insertion order, so it is the list \<open>Array.from\<close> gives. The loop state is the pair
  \<open>(weightedSum, totalWeight)\<close>.
\<close>

definition overallStep ::
  "ProgressConfig \<Rightarrow> (jsstring \<rightharpoonup> rat) \<Rightarrow> rat \<times> rat \<Rightarrow> jsstring \<Rightarrow> rat \<times> rat" where
  "overallStep cfg currentCategoryProgress acc category =
     (let weight = weightOf cfg category;
          totalWeight = js_add (snd acc) weight
      in case currentCategoryProgress category of
           Some p \<Rightarrow> (js_add (fst acc) (js_mul p weight), totalWeight)
         | None \<Rightarrow>
             (js_add (fst acc) (js_mul (T_CATEGORY_GRADUATED (progressThresholds cfg)) weight),
              totalWeight))"

definition calculateOverallProgressWithAllCategories ::
  "ProgressConfig \<Rightarrow> (jsstring \<rightharpoonup> rat) \<Rightarrow> jsstring list \<Rightarrow> rat" where
  "calculateOverallProgressWithAllCategories cfg currentCategoryProgress categoriesEverSeen =
     (if categoriesEverSeen = [] then 0
      else
        let acc = foldl (overallStep cfg currentCategoryProgress) (0, 0) categoriesEverSeen
        in if snd acc = 0 then 0 else Math_round (js_div (fst acc) (snd acc)))"


section \<open>Progress calculator V2 (module lib/progress-calculator-v2)\<close>

text \<open>
  The superseded calculator has its thresholds as a constant of its own and decides on the
  raw status and a separate check of the notes.
\<close>

definition v2_PROGRESS_THRESHOLDS :: ProgressThresholds where
  "v2_PROGRESS_THRESHOLDS = \<lparr>
     T_VERIFIED_NO_DEFECTS = 90,
     T_CATEGORY_GRADUATED = 90,
     T_ITEM_FIXED = 90,
     T_COMPLETED_OK_LATER = 75,
     T_COMPLETED_OK_FIRST = 50,
     T_HANDLED = 70,
     T_COMPLETED_WITH_ISSUES = 65,
     T_DEFECT_WORK_DONE = 55,
     T_IN_PROGRESS = 30,
     T_PENDING = 15,
     T_UNKNOWN = 15,
     T_NOT_STARTED = 5,
     T_CATEGORY_NEVER_SEEN = 0\<rparr>"

definition calculateItemProgressV2 ::
  "WorkStatus \<Rightarrow> jsstring option \<Rightarrow> ProgressContext \<Rightarrow> ProgressResult" where
  "calculateItemProgressV2 status notes context =
     (let hasIssuesInNotes = hasNegativeNotes notes;
          isFirstTime = (isFirstTimeSeen context \<noteq> Some False);
          thresholds = v2_PROGRESS_THRESHOLDS
      in if status = COMPLETED_OK then
           (if hasIssuesInNotes then
              mkResult (T_COMPLETED_WITH_ISSUES thresholds) ''completed_ok_with_issues'' context
            else
              mkResult (T_VERIFIED_NO_DEFECTS thresholds) ''verified_no_defects'' context)
         else if status = COMPLETED then
           (if hasIssuesInNotes then
              mkResult (T_COMPLETED_WITH_ISSUES thresholds) ''completed_with_issues'' context
            else if isVerified notes then
              mkResult (T_VERIFIED_NO_DEFECTS thresholds) ''verified_via_notes'' context
            else if isFirstTime then
              mkResult (T_COMPLETED_OK_FIRST thresholds) ''completed_ok_first_time'' context
            else
              mkResult (T_COMPLETED_OK_LATER thresholds) ''completed_ok_later'' context)
         else if status = HANDLED then
           mkResult (T_HANDLED thresholds) ''handled'' context
         else if status = DEFECT \<or> status = NOT_OK then
           mkResult (T_DEFECT_WORK_DONE thresholds) ''defect_work_done'' context
         else if status = IN_PROGRESS then
           mkResult (T_IN_PROGRESS thresholds) ''in_progress'' context
         else if status = PENDING then
           mkResult (T_PENDING thresholds) ''pending'' context
         else if status = NOT_STARTED then
           mkResult (T_NOT_STARTED thresholds) ''not_started'' context
         else
           mkResult (T_UNKNOWN thresholds) ''unknown_status'' context)"

section \<open>Statistics route\<close>

text \<open>
  The route that answers with the statistics of the whole project (with the lists of
  completed, defect and in-progress items) reads the processed reports in the order of
  their dates, each with its work items, and folds them into a \<open>Map\<close> from item keys to \<open>ItemHistory\<close> objects. A
  \<open>Map\<close> iterates in insertion order and \<open>set\<close> on a key it holds keeps the key's
  place, which is what \<open>AList.update\<close> does on an association list. The fields of a work
  item carry the prefix \<open>item_\<close>, the fields an \<open>ItemHistory\<close> copies from it the
  prefix \<open>h_\<close>. \<open>item_apartmentId\<close> is the foreign key \<open>item.apartmentId\<close> and
  \<open>item_apartment\<close> is \<open>item.apartment?.number\<close>, the number of the apartment it points to.
\<close>

abbreviation Bar :: nat where "Bar \<equiv> 124"

record WorkItem =
  item_id :: jsstring
  item_apartmentId :: "jsstring option"
  item_apartment :: "jsstring option"
  item_category :: jsstring
  item_description :: jsstring
  item_location :: "jsstring option"
  item_status :: WorkStatus
  item_notes :: "jsstring option"

record Report =
  reportDate :: int
  workItems :: "WorkItem list"

record ItemHistory =
  h_category :: jsstring
  h_status :: WorkStatus
  h_notes :: "jsstring option"
  h_description :: jsstring
  h_location :: "jsstring option"
  h_id :: jsstring
  h_reportDate :: int
  apartmentNumber :: jsstring
  firstSeenReportIndex :: nat
  lastSeenReportIndex :: nat
  isInLatestReport :: bool
  hadDefectEver :: bool
  defectReportDate :: "int option"

record StatsState =
  itemHistory :: "(jsstring \<times> ItemHistory) list"
  categoriesEverSeen :: "jsstring list"
  apartmentCategoriesEverSeen :: "(jsstring \<times> jsstring list) list"

definition itemHasDefect :: "WorkStatus \<Rightarrow> jsstring option \<Rightarrow> bool" where
  "itemHasDefect status notes = (isNegativeStatus status \<or> hasNegativeNotes notes)"

definition itemIsCompleted :: "WorkStatus \<Rightarrow> jsstring option \<Rightarrow> bool" where
  "itemIsCompleted status notes = (isPositiveStatus status \<and> \<not> hasNegativeNotes notes)"

text \<open>The bucket of site development, the Hebrew word for it.\<close>

definition DEVELOPMENT :: jsstring where
  "DEVELOPMENT = [Pe, Yod, Tav, Vav, Het]"

text \<open>\<open>item.apartment?.number || DEVELOPMENT\<close>: no apartment and an empty number are falsy.\<close>

definition aptNumberOf :: "WorkItem \<Rightarrow> jsstring" where
  "aptNumberOf item =
     (case item_apartment item of
        None \<Rightarrow> DEVELOPMENT
      | Some n \<Rightarrow> if n = [] then DEVELOPMENT else n)"

definition itemKey :: "WorkItem \<Rightarrow> jsstring" where
  "itemKey item = aptNumberOf item @ [Bar] @ item_category item @ [Bar] @ item_description item"

text \<open>\<open>Set.prototype.add\<close>, the set kept as the list of its members in insertion order.\<close>

definition setAdd :: "jsstring \<Rightarrow> jsstring list \<Rightarrow> jsstring list" where
  "setAdd x xs = (if x \<in> set xs then xs else xs @ [x])"

definition initialState :: "jsstring list \<Rightarrow> StatsState" where
  "initialState apartments =
     \<lparr>itemHistory = [],
      categoriesEverSeen = [],
      apartmentCategoriesEverSeen =
        AList.update DEVELOPMENT [] (fold (\<lambda>number. AList.update number []) apartments [])\<rparr>"

text \<open>
  The body of the inner loop, for one work item of the report with index \<open>reportIndex\<close>;
  \<open>latestKeys\<close> is the set \<open>itemsInLatestReport\<close>.
\<close>

definition processItem :: "jsstring list \<Rightarrow> nat \<Rightarrow> int \<Rightarrow> StatsState \<Rightarrow> WorkItem \<Rightarrow> StatsState" where
  "processItem latestKeys reportIndex date st item =
     (let aptNumber = aptNumberOf item;
          key = itemKey item;
          catsSeen = setAdd (item_category item) (categoriesEverSeen st);
          aptSeen =
            (case map_of (apartmentCategoriesEverSeen st) aptNumber of
               None \<Rightarrow> apartmentCategoriesEverSeen st
             | Some aptCats \<Rightarrow>
                 AList.update aptNumber (setAdd (item_category item) aptCats)
                   (apartmentCategoriesEverSeen st));
          isDefectNow = itemHasDefect (item_status item) (item_notes item);
          entry =
            (case map_of (itemHistory st) key of
               Some existing \<Rightarrow>
                 existing\<lparr>h_status := item_status item,
                          h_notes := item_notes item,
                          h_reportDate := date,
                          lastSeenReportIndex := reportIndex,
                          isInLatestReport := (key \<in> set latestKeys),
                          hadDefectEver :=
                            (if isDefectNow \<and> \<not> hadDefectEver existing then True
                             else hadDefectEver existing),
                          defectReportDate :=
                            (if isDefectNow \<and> \<not> hadDefectEver existing then Some date
                             else defectReportDate existing)\<rparr>
             | None \<Rightarrow>
                 \<lparr>h_category = item_category item,
                  h_status = item_status item,
                  h_notes = item_notes item,
                  h_description = item_description item,
                  h_location = item_location item,
                  h_id = item_id item,
                  h_reportDate = date,
                  apartmentNumber = aptNumber,
                  firstSeenReportIndex = reportIndex,
                  lastSeenReportIndex = reportIndex,
                  isInLatestReport = (key \<in> set latestKeys),
                  hadDefectEver = isDefectNow,
                  defectReportDate = (if isDefectNow then Some date else None)\<rparr>)
      in \<lparr>itemHistory = AList.update key entry (itemHistory st),
          categoriesEverSeen = catsSeen,
          apartmentCategoriesEverSeen = aptSeen\<rparr>)"

definition processReport :: "jsstring list \<Rightarrow> nat \<Rightarrow> StatsState \<Rightarrow> Report \<Rightarrow> StatsState" where
  "processReport latestKeys reportIndex st report =
     foldl (processItem latestKeys reportIndex (reportDate report)) st (workItems report)"

text \<open>The outer loop, from the report with index \<open>reportIndex\<close> on.\<close>

fun processReports :: "jsstring list \<Rightarrow> nat \<Rightarrow> StatsState \<Rightarrow> Report list \<Rightarrow> StatsState" where
  "processReports latestKeys reportIndex st [] = st"
| "processReports latestKeys reportIndex st (report # reports) =
     processReports latestKeys (Suc reportIndex)
       (processReport latestKeys reportIndex st report) reports"

definition itemsInLatestReport :: "Report list \<Rightarrow> jsstring list" where
  "itemsInLatestReport reports = fold (\<lambda>item keys. setAdd (itemKey item) keys) (workItems (last reports)) []"

text \<open>
  The history the route builds. With no processed report it answers with empty statistics
  before it builds anything, which is \<open>None\<close> here.
\<close>

definition buildItemHistory :: "jsstring list \<Rightarrow> Report list \<Rightarrow> StatsState option" where
  "buildItemHistory apartments reports =
     (if reports = [] then None
      else Some (processReports (itemsInLatestReport reports) 0 (initialState apartments) reports))"

text \<open>
  \<open>calculateEffectiveProgress\<close>: the route imports \<open>calculateItemProgressV2\<close> and
  \<open>PROGRESS_THRESHOLDS\<close> from \<open>lib/progress-calculator\<close>, which re-exports those of the
  V3 module.
\<close>

definition calculateEffectiveProgress :: "ProgressConfig \<Rightarrow> nat \<Rightarrow> ItemHistory \<Rightarrow> rat" where
  "calculateEffectiveProgress cfg latestReportIndex item =
     (if isInLatestReport item then
        progress (v3_calculateItemProgressV2 cfg (h_status item) (h_notes item)
          \<lparr>isFirstTimeSeen = Some (firstSeenReportIndex item = latestReportIndex),
           previousProgress = None\<rparr>)
      else T_ITEM_FIXED PROGRESS_THRESHOLDS)"

text \<open>The progress the route reports for the item with key \<open>key\<close> (\<open>formatItem\<close>).\<close>

definition itemProgress :: "ProgressConfig \<Rightarrow> jsstring list \<Rightarrow> Report list \<Rightarrow> jsstring \<Rightarrow> rat option" where
  "itemProgress cfg apartments reports key =
     (case buildItemHistory apartments reports of
        None \<Rightarrow> None
      | Some st \<Rightarrow>
          map_option (calculateEffectiveProgress cfg (length reports - 1))
            (map_of (itemHistory st) key))"

section \<open>Timeline route\<close>

text \<open>
  The timeline keeps three histories of the same shape: one for the whole project, one per
  apartment (by the apartment's id) and one for site development. The statements that
  insert or update an entry are the same for the three; they are \<open>updateHistory\<close>.
  The sets of categories and of keys of the current report, which the route keeps beside
  the histories, do not flow into them and are left out.
\<close>

record TimelineHistory =
  tl_category :: jsstring
  tl_status :: WorkStatus
  tl_notes :: "jsstring option"
  tl_firstSeenReportIndex :: nat
  tl_lastSeenReportIndex :: nat
  hadDefect :: bool

type_synonym history = "(jsstring \<times> TimelineHistory) list"

record TimelineState =
  projectItemHistory :: history
  apartmentItemHistory :: "(jsstring \<times> history) list"
  devItemHistory :: history

definition timelineKey :: "WorkItem \<Rightarrow> jsstring" where
  "timelineKey item = item_category item @ [Bar] @ item_description item"

definition updateHistory :: "nat \<Rightarrow> history \<Rightarrow> WorkItem \<Rightarrow> history" where
  "updateHistory reportIndex history item =
     (let key = timelineKey item;
          isDefect = (isNegativeStatus (item_status item) \<or> hasNegativeNotes (item_notes item))
      in case map_of history key of
           Some existing \<Rightarrow>
             AList.update key
               (existing\<lparr>tl_status := item_status item,
                         tl_notes := item_notes item,
                         tl_lastSeenReportIndex := reportIndex,
                         hadDefect := (if isDefect then True else hadDefect existing)\<rparr>)
               history
         | None \<Rightarrow>
             AList.update key
               \<lparr>tl_category = item_category item,
                tl_status = item_status item,
                tl_notes = item_notes item,
                tl_firstSeenReportIndex = reportIndex,
                tl_lastSeenReportIndex = reportIndex,
                hadDefect = isDefect\<rparr>
               history)"

definition updateDevelopment :: "nat \<Rightarrow> TimelineState \<Rightarrow> WorkItem \<Rightarrow> TimelineState" where
  "updateDevelopment reportIndex st item =
     st\<lparr>devItemHistory := updateHistory reportIndex (devItemHistory st) item\<rparr>"

text \<open>
  The loop body for one work item. \<open>if (item.apartmentId)\<close> sends an item with no
  apartment id, or an empty one, to the development history; an id with no history of its
  own (no such apartment) updates the project history only.
\<close>

definition timelineItem :: "nat \<Rightarrow> TimelineState \<Rightarrow> WorkItem \<Rightarrow> TimelineState" where
  "timelineItem reportIndex st item =
     (let st1 = st\<lparr>projectItemHistory := updateHistory reportIndex (projectItemHistory st) item\<rparr>
      in case item_apartmentId item of
           None \<Rightarrow> updateDevelopment reportIndex st1 item
         | Some aptId \<Rightarrow>
             if aptId = [] then updateDevelopment reportIndex st1 item
             else
               (case map_of (apartmentItemHistory st1) aptId of
                  None \<Rightarrow> st1
                | Some aptHistory \<Rightarrow>
                    st1\<lparr>apartmentItemHistory :=
                          AList.update aptId (updateHistory reportIndex aptHistory item)
                            (apartmentItemHistory st1)\<rparr>))"

fun timelineReports :: "nat \<Rightarrow> TimelineState \<Rightarrow> Report list \<Rightarrow> TimelineState" where
  "timelineReports reportIndex st [] = st"
| "timelineReports reportIndex st (report # reports) =
     timelineReports (Suc reportIndex)
       (foldl (timelineItem reportIndex) st (workItems report)) reports"

definition initialTimeline :: "jsstring list \<Rightarrow> TimelineState" where
  "initialTimeline apartmentIds =
     \<lparr>projectItemHistory = [],
      apartmentItemHistory = fold (\<lambda>aptId. AList.update aptId []) apartmentIds [],
      devItemHistory = []\<rparr>"


section \<open>Predicates and inputs of the properties\<close>

text \<open>The item with key \<open>key\<close> is in the history and its sticky defect flag is set.\<close>

definition everDefect :: "StatsState \<Rightarrow> jsstring \<Rightarrow> bool" where
  "everDefect st key = (case map_of (itemHistory st) key of Some h \<Rightarrow> hadDefectEver h | None \<Rightarrow> False)"

definition flagged :: "history \<Rightarrow> jsstring \<Rightarrow> bool" where
  "flagged history key = (case map_of history key of Some h \<Rightarrow> hadDefect h | None \<Rightarrow> False)"

text \<open>
  The scopes of the timeline: the whole project, site development, or one apartment by its
  id. \<open>scopeHistory\<close> is the history the route keeps for a scope, if it keeps one.
\<close>

datatype Scope = Project | Development | Apartment jsstring

definition scopeHistory :: "TimelineState \<Rightarrow> Scope \<Rightarrow> history option" where
  "scopeHistory st scope =
     (case scope of
        Project \<Rightarrow> Some (projectItemHistory st)
      | Development \<Rightarrow> Some (devItemHistory st)
      | Apartment aptId \<Rightarrow> map_of (apartmentItemHistory st) aptId)"

definition scopeFlagged :: "TimelineState \<Rightarrow> Scope \<Rightarrow> jsstring \<Rightarrow> bool" where
  "scopeFlagged st scope key =
     (case scopeHistory st scope of Some history \<Rightarrow> flagged history key | None \<Rightarrow> False)"

text \<open>Every entry of the history records whether its key is in the latest report.\<close>

definition latestRecorded :: "jsstring list \<Rightarrow> StatsState \<Rightarrow> bool" where
  "latestRecorded latestKeys st =
     (\<forall>k h. map_of (itemHistory st) k = Some h \<longrightarrow> isInLatestReport h = (k \<in> set latestKeys))"

text \<open>
  The scope aggregation as the specification words it, in exact arithmetic: the weight of
  a category is \<open>categoryWeights[cat] ?? defaultCategoryWeight\<close>, the configured weight
  whenever one is defined.
\<close>

definition specWeight :: "ProgressConfig \<Rightarrow> jsstring \<Rightarrow> rat" where
  "specWeight cfg category =
     (case map_of (categoryWeights cfg) category of
        None \<Rightarrow> defaultCategoryWeight cfg
      | Some w \<Rightarrow> w)"

definition categoryValue :: "ProgressConfig \<Rightarrow> (jsstring \<rightharpoonup> rat) \<Rightarrow> jsstring \<Rightarrow> rat" where
  "categoryValue cfg currentCategoryProgress category =
     (case currentCategoryProgress category of
        Some p \<Rightarrow> p
      | None \<Rightarrow> T_CATEGORY_GRADUATED (progressThresholds cfg))"

definition specScopeProgress :: "ProgressConfig \<Rightarrow> (jsstring \<rightharpoonup> rat) \<Rightarrow> jsstring list \<Rightarrow> rat" where
  "specScopeProgress cfg currentCategoryProgress seen =
     (let totalWeight = sum_list (map (specWeight cfg) seen)
      in if seen = [] \<or> totalWeight = 0 then 0
         else Math_round
                (sum_list (map (\<lambda>c. specWeight cfg c * categoryValue cfg currentCategoryProgress c)
                             seen)
                 / totalWeight))"

text \<open>The messages that \<open>validateConfig\<close> is to give as warnings only.\<close>

fun isWarningOnly :: "Message \<Rightarrow> bool" where
  "isWarningOnly (ZeroWeight cat) = True"
| "isWarningOnly VerifiedNotAboveCompletedLater = True"
| "isWarningOnly CompletedLaterNotAboveCompletedFirst = True"
| "isWarningOnly HandledNotAboveDefect = True"
| "isWarningOnly DefectNotAboveInProgress = True"
| "isWarningOnly InProgressNotAbovePending = True"
| "isWarningOnly PendingNotAboveNotStarted = True"
| "isWarningOnly m = False"

abbreviation inPercent :: "rat \<Rightarrow> bool" where
  "inPercent v \<equiv> 0 \<le> v \<and> v \<le> 100"

text \<open>
  A configuration that gives electrical work the weight 0 (the other weights still sum
  to 100), and one that also puts the threshold of pending work below that of work not
  started.
\<close>

definition zeroWeightConfig :: ProgressConfig where
  "zeroWeightConfig = DEFAULT_CONFIG\<lparr>categoryWeights := [
       (ascii ''ELECTRICAL'', 0),
       (ascii ''PLUMBING'', 10),
       (ascii ''SPRINKLERS'', 5),
       (ascii ''WATERPROOFING'', 5),
       (ascii ''DRYWALL'', 10),
       (ascii ''FLOORING'', 15),
       (ascii ''AC'', 8),
       (ascii ''PAINTING'', 10),
       (ascii ''KITCHEN'', 10),
       (ascii ''OTHER'', 27)]\<rparr>"

definition illOrderedConfig :: ProgressConfig where
  "illOrderedConfig =
     zeroWeightConfig\<lparr>progressThresholds :=
       (progressThresholds DEFAULT_CONFIG)\<lparr>T_PENDING := 5, T_NOT_STARTED := 15\<rparr>\<rparr>"

text \<open>
  The default configuration with the last weight raised from 15 to 15.01, as a JSON file
  or an admin request carries it: the double nearest to 15.01.
\<close>

definition boundaryConfig :: ProgressConfig where
  "boundaryConfig = DEFAULT_CONFIG\<lparr>categoryWeights := [
       (ascii ''ELECTRICAL'', 12),
       (ascii ''PLUMBING'', 10),
       (ascii ''SPRINKLERS'', 5),
       (ascii ''WATERPROOFING'', 5),
       (ascii ''DRYWALL'', 10),
       (ascii ''FLOORING'', 15),
       (ascii ''AC'', 8),
       (ascii ''PAINTING'', 10),
       (ascii ''KITCHEN'', 10),
       (ascii ''OTHER'', toDouble (1501 / 100))]\<rparr>"

text \<open>
  The default configuration with the threshold of a fixed item lowered to 80 and that of
  a defect raised to 60.
\<close>

definition reconfiguredConfig :: ProgressConfig where
  "reconfiguredConfig =
     DEFAULT_CONFIG\<lparr>progressThresholds :=
       (progressThresholds DEFAULT_CONFIG)\<lparr>T_ITEM_FIXED := 80, T_DEFECT_WORK_DONE := 60\<rparr>\<rparr>"

text \<open>Electrical work at 0 percent and plumbing at 100 percent, both seen for the scope.\<close>

definition twoCategoryProgress :: "jsstring \<rightharpoonup> rat" where
  "twoCategoryProgress = [ascii ''ELECTRICAL'' \<mapsto> 0, ascii ''PLUMBING'' \<mapsto> 100]"

definition twoCategoriesSeen :: "jsstring list" where
  "twoCategoriesSeen = [ascii ''ELECTRICAL'', ascii ''PLUMBING'']"

text \<open>
  Status texts and notes: "done, discrepancies found", "done - in order, approved", and
  the note "missing".
\<close>

definition doneDiscrepanciesFound :: jsstring where
  "doneDiscrepanciesFound =
     [Bet, Vav, Tsadi, Ayin, Comma, SP, Nun, Mem, Tsadi, Alef, Vav, SP, Alef, Yod, SP,
      Tav, Alef, Vav, Mem, Yod, FinalMem]"

definition doneInOrderApproved :: jsstring where
  "doneInOrderApproved =
     [Bet, Vav, Tsadi, Ayin, SP, Hyphen, SP, Tav, Qof, Yod, FinalNun, Comma, SP,
      Alef, Vav, Shin, Resh]"

definition missingNote :: jsstring where
  "missingNote = [Het, Samekh, Resh]"

text \<open>
  Work items of apartment 1 (a socket, tiling) and of site development (a fence), each
  with a status to fill in and no notes, and two runs of two reports over them.
\<close>

definition socketItem :: "WorkStatus \<Rightarrow> WorkItem" where
  "socketItem s =
     \<lparr>item_id = ascii ''w1'', item_apartmentId = Some (ascii ''a1''),
      item_apartment = Some (ascii ''1''), item_category = ascii ''ELECTRICAL'',
      item_description = [Nun, Qof, Vav, Dalet, Tav, SP, Het, Shin, Mem, Lamed],
      item_location = None, item_status = s, item_notes = None\<rparr>"

definition tilingItem :: "WorkStatus \<Rightarrow> WorkItem" where
  "tilingItem s =
     \<lparr>item_id = ascii ''w2'', item_apartmentId = Some (ascii ''a1''),
      item_apartment = Some (ascii ''1''), item_category = ascii ''FLOORING'',
      item_description = [Resh, Yod, Tsadi, Vav, FinalPe],
      item_location = None, item_status = s, item_notes = None\<rparr>"

definition fenceItem :: "WorkStatus \<Rightarrow> WorkItem" where
  "fenceItem s =
     \<lparr>item_id = ascii ''w3'', item_apartmentId = None,
      item_apartment = None, item_category = ascii ''OTHER'',
      item_description = [Gimel, Dalet, Resh],
      item_location = None, item_status = s, item_notes = None\<rparr>"

definition defectThenGone :: "Report list" where
  "defectThenGone =
     [\<lparr>reportDate = 1, workItems = [socketItem COMPLETED, tilingItem NOT_STARTED]\<rparr>,
      \<lparr>reportDate = 2, workItems = [socketItem DEFECT]\<rparr>]"

definition defectThenClean :: "Report list" where
  "defectThenClean =
     [\<lparr>reportDate = 1, workItems = [socketItem DEFECT, fenceItem NOT_OK]\<rparr>,
      \<lparr>reportDate = 2, workItems = [socketItem COMPLETED_OK, fenceItem COMPLETED_OK]\<rparr>]"

section \<open>Properties\<close>

lemmas string_defs = ascii_def toLowerCase_def lowerUnit_def trim_def isWhiteSpace_def

lemmas status_defs = isPositiveStatus_def isNegativeStatus_def getEffectiveStatus_def

lemmas validate_defs = validateConfig_def pushIf_def weightErrors_def weightWarnings_def
  thresholdErrors_def thresholdEntries_def orderingWarnings_def

lemmas scorer_defs = calculateItemProgressV3_def v3_calculateItemProgressV2_def mkResult_def

lemmas stats_defs = buildItemHistory_def itemsInLatestReport_def setAdd_def processReport_def
  processItem_def itemKey_def aptNumberOf_def initialState_def itemHasDefect_def
  calculateEffectiveProgress_def PROGRESS_THRESHOLDS_def Let_def

lemmas timeline_defs = timelineItem_def updateDevelopment_def updateHistory_def timelineKey_def
  initialTimeline_def Let_def

lemmas item_defs = socketItem_def tilingItem_def fenceItem_def DEVELOPMENT_def

subsection \<open>Numbers\<close>

lemma floor_rat_numeral_divide [simp]:
  "\<lfloor>numeral a / (numeral b :: rat)\<rfloor> = numeral a div numeral b"
  using floor_divide_of_int_eq [of "numeral a" "numeral b", where ?'a = rat] by simp

lemma ceiling_rat_numeral_divide [simp]:
  "\<lceil>numeral a / (numeral b :: rat)\<rceil> = - ((- numeral a) div numeral b)"
  using ceiling_divide_eq_div [of "numeral a" "numeral b", where ?'a = rat] by simp

text \<open>
  The equations by which the rounding is evaluated: they apply to numerals and quotients of
  numerals only, so that a number that is not known is left alone.
\<close>

lemma bitLength_eval:
  "bitLength 0 = 0"
  "bitLength (Suc 0) = Suc 0"
  "bitLength (numeral k) = Suc (bitLength (numeral k div 2))"
  by (simp_all add: bitLength.simps [of 0] bitLength.simps [of "numeral k"]
      bitLength.simps [of "Suc 0"])

lemma toDouble_eval:
  "toDouble 0 = 0"
  "toDouble 1 = 1"
  "toDouble (numeral k) =
     (let q = max (binade (numeral k)) (- 1022) - 52
      in of_int (roundHalfEven (numeral k / pow2 q)) * pow2 q)"
  "toDouble (- numeral k) =
     (let q = max (binade (- numeral k)) (- 1022) - 52
      in of_int (roundHalfEven (- numeral k / pow2 q)) * pow2 q)"
  "toDouble (numeral a / numeral b) =
     (let q = max (binade (numeral a / numeral b)) (- 1022) - 52
      in of_int (roundHalfEven (numeral a / numeral b / pow2 q)) * pow2 q)"
  "toDouble (1 / numeral b) =
     (let q = max (binade (1 / numeral b)) (- 1022) - 52
      in of_int (roundHalfEven (1 / numeral b / pow2 q)) * pow2 q)"
  "toDouble (- (numeral a / numeral b)) =
     (let q = max (binade (- (numeral a / numeral b))) (- 1022) - 52
      in of_int (roundHalfEven (- (numeral a / numeral b) / pow2 q)) * pow2 q)"
  by (simp_all add: toDouble_def binade_def pow2_def roundHalfEven_def bitLength_eval)

lemmas double_defs = js_add_def js_sub_def js_mul_def js_div_def toDouble_eval binade_def
  pow2_def roundHalfEven_def bitLength_eval

text \<open>The doubles nearest to 0.01 and to 15.01, and sums of weights in double arithmetic.\<close>

lemma double_one_hundredth: "toDouble (1 / 100) = 5764607523034235 / 576460752303423488"
  by (simp add: double_defs Let_def)

lemma double_15_01: "toDouble (1501 / 100) = 8449878800853893 / 562949953421312"
  by (simp add: double_defs Let_def)

lemma default_weight_sum: "foldl js_add 0 [12, 10, 5, 5, 10, 15, 8, 10, 10, 15] = 100"
  by (simp add: double_defs Let_def)

lemma zero_weight_sum: "foldl js_add 0 [0, 10, 5, 5, 10, 15, 8, 10, 10, 27] = 100"
  by (simp add: double_defs Let_def)

lemma boundary_weight_sum:
  "foldl js_add 0 [12, 10, 5, 5, 10, 15, 8, 10, 10, 8449878800853893 / 562949953421312]
   = 7037578105208177 / 70368744177664"
  by (simp add: double_defs Let_def)

lemma difference_exact:
  "js_sub 100 100 = 0"
  "js_sub (7037578105208177 / 70368744177664) 100 = 703687441777 / 70368744177664"
  by (simp_all add: double_defs Let_def)


subsection \<open>Notes and keywords\<close>

lemma missingNote_negative: "hasNegativeNotes (Some missingNote)"
  by (simp add: hasNegativeNotes_def NEGATIVE_KEYWORDS_def missingNote_def string_defs)

lemma no_notes_clean: "\<not> hasNegativeNotes None" "\<not> isVerified None"
  by (simp_all add: hasNegativeNotes_def isVerified_def)

subsection \<open>Status normalisation\<close>

text \<open>
  The upload route's own \<open>normalizeStatus\<close> finds the defect keyword in "done,
  discrepancies found", and for "done - in order, approved" it reaches the longer key
  first.
\<close>

lemma route_normalizeStatus_discrepancies:
  "route_normalizeStatus doneDiscrepanciesFound None = DEFECT"
  by (simp add: route_normalizeStatus_def DEFECT_KEYWORDS_def doneDiscrepanciesFound_def
      joinTruthy_def string_defs)

lemma route_normalizeStatus_longest_key:
  "route_normalizeStatus doneInOrderApproved None = COMPLETED_OK"
  by (simp add: route_normalizeStatus_def DEFECT_KEYWORDS_def PARTIAL_KEYWORDS_def
      doneInOrderApproved_def joinTruthy_def sortedEntries_def route_hebrewStatusMap_def
      string_defs)

text \<open>
  Claim C3. \<open>normalizeStatus\<close> applied to "done, discrepancies found" is to return
  \<open>DEFECT\<close> and not \<open>COMPLETED\<close>. The status mapper's \<open>normalizeStatus\<close> has no scan
  for defect keywords: the text is no key of the table, the first key of the table that it
  contains is "done", and the result is \<open>COMPLETED\<close>, although the text also contains
  the key "discrepancies found", which the table maps to \<open>DEFECT\<close>.
\<close>

theorem normalizeStatus_discrepancies_completed:
  "normalizeStatus doneDiscrepanciesFound = COMPLETED
   \<and> js_includes doneDiscrepanciesFound
        [Nun, Mem, Tsadi, Alef, Vav, SP, Alef, Yod, SP, Tav, Alef, Vav, Mem, Yod, FinalMem]
   \<and> map_of hebrewStatusMap
        [Nun, Mem, Tsadi, Alef, Vav, SP, Alef, Yod, SP, Tav, Alef, Vav, Mem, Yod, FinalMem]
      = Some DEFECT"
  by (simp add: normalizeStatus_def hebrewStatusMap_def doneDiscrepanciesFound_def string_defs)

text \<open>
  Claim C4. In the fallback to substring matching the keys are to be tried longest first,
  so that a text containing both "done" and "done - in order" gets the status of the
  longer key. The status mapper tries them in table order: "done - in order, approved" is
  no key of the table, it contains the key "done" and the longer key "done - in order"
  (mapped to \<open>COMPLETED_OK\<close>), and the result is \<open>COMPLETED\<close>, the status of the shorter
  key.
\<close>

theorem normalizeStatus_table_order_not_longest:
  "map_of hebrewStatusMap (trim doneInOrderApproved) = None
   \<and> js_includes (trim doneInOrderApproved) [Bet, Vav, Tsadi, Ayin]
   \<and> js_includes (trim doneInOrderApproved)
        [Bet, Vav, Tsadi, Ayin, SP, Hyphen, SP, Tav, Qof, Yod, FinalNun]
   \<and> map_of hebrewStatusMap [Bet, Vav, Tsadi, Ayin, SP, Hyphen, SP, Tav, Qof, Yod, FinalNun]
      = Some COMPLETED_OK
   \<and> normalizeStatus doneInOrderApproved = COMPLETED"
  by (simp add: normalizeStatus_def hebrewStatusMap_def doneInOrderApproved_def string_defs)

subsection \<open>Scoring one item\<close>

text \<open>
  Claim C10. For a work item whose raw status is \<open>IN_PROGRESS\<close>, \<open>PENDING\<close> or
  \<open>NOT_STARTED\<close> and whose notes contain a defect keyword, \<open>getEffectiveStatus\<close>
  returns the raw status, the score is the threshold of the raw status (the branch taken
  is not the defect branch), and \<open>itemHasDefect\<close> still counts the item as a defect.
\<close>

theorem neutral_status_keeps_threshold:
  assumes "status = IN_PROGRESS \<or> status = PENDING \<or> status = NOT_STARTED"
    and "hasNegativeNotes notes"
  shows "getEffectiveStatus status notes = status
    \<and> progress (calculateItemProgressV3 cfg status notes context) =
        (if status = IN_PROGRESS then T_IN_PROGRESS (progressThresholds cfg)
         else if status = PENDING then T_PENDING (progressThresholds cfg)
         else T_NOT_STARTED (progressThresholds cfg))
    \<and> reason (calculateItemProgressV3 cfg status notes context) \<noteq> ''defect_work_done''
    \<and> itemHasDefect status notes"
  using assms
  by (auto simp add: status_defs scorer_defs itemHasDefect_def Let_def)

theorem neutral_status_keeps_threshold_witness:
  "getEffectiveStatus PENDING (Some missingNote) = PENDING
   \<and> progress (calculateItemProgressV3 DEFAULT_CONFIG PENDING (Some missingNote) emptyContext) = 15
   \<and> itemHasDefect PENDING (Some missingNote)"
  using neutral_status_keeps_threshold [of PENDING "Some missingNote" DEFAULT_CONFIG emptyContext]
    missingNote_negative
  by (simp add: DEFAULT_CONFIG_def)

text \<open>
  Where the notes carry no defect keyword, or the status is not a positive one, the
  superseded scorer and the current one agree under the default configuration.
\<close>

lemma v2_v3_agree:
  assumes "\<not> hasNegativeNotes notes \<or> \<not> isPositiveStatus status"
  shows "calculateItemProgressV2 status notes context
         = calculateItemProgressV3 DEFAULT_CONFIG status notes context"
  using assms
  by (cases status)
     (auto simp add: calculateItemProgressV2_def scorer_defs status_defs
        v2_PROGRESS_THRESHOLDS_def DEFAULT_CONFIG_def Let_def)

text \<open>
  Claim C9. The superseded \<open>calculateItemProgressV2\<close> and the current
  \<open>calculateItemProgressV3\<close> are to return the same progress for every status, notes and
  context. For the status \<open>COMPLETED\<close> with the note "missing" and an empty context they
  do not: V2 takes its branch for a completed item with issues in the notes (65), V3
  scores the effective status \<open>DEFECT\<close> (55).
\<close>

theorem v2_v3_differ_on_negative_notes:
  "progress (calculateItemProgressV2 COMPLETED (Some missingNote) emptyContext) = 65
   \<and> progress (calculateItemProgressV3 DEFAULT_CONFIG COMPLETED (Some missingNote) emptyContext) = 55"
  by (simp add: calculateItemProgressV2_def scorer_defs status_defs missingNote_negative
      emptyContext_def v2_PROGRESS_THRESHOLDS_def DEFAULT_CONFIG_def)

subsection \<open>Configuration\<close>

lemma weightErrors_empty: "weightErrors ws = [] \<longleftrightarrow> (\<forall>(cat, w) \<in> set ws. 0 \<le> w)"
  by (induction ws) (auto simp add: weightErrors_def pushIf_def split: if_splits)

lemma weightErrors_not_warning: "m \<in> set (weightErrors ws) \<Longrightarrow> \<not> isWarningOnly m"
  by (induction ws) (auto simp add: weightErrors_def pushIf_def split: if_splits)

lemma thresholdErrors_not_warning: "m \<in> set (thresholdErrors t) \<Longrightarrow> \<not> isWarningOnly m"
  by (auto simp add: thresholdErrors_def thresholdEntries_def pushIf_def split: if_splits)

lemma thresholdErrors_empty:
  "thresholdErrors t = [] \<longleftrightarrow>
     inPercent (T_VERIFIED_NO_DEFECTS t) \<and> inPercent (T_CATEGORY_GRADUATED t)
   \<and> inPercent (T_ITEM_FIXED t) \<and> inPercent (T_COMPLETED_OK_LATER t)
   \<and> inPercent (T_COMPLETED_OK_FIRST t) \<and> inPercent (T_HANDLED t)
   \<and> inPercent (T_COMPLETED_WITH_ISSUES t) \<and> inPercent (T_DEFECT_WORK_DONE t)
   \<and> inPercent (T_IN_PROGRESS t) \<and> inPercent (T_PENDING t)
   \<and> inPercent (T_UNKNOWN t) \<and> inPercent (T_NOT_STARTED t)
   \<and> inPercent (T_CATEGORY_NEVER_SEEN t)"
  by (simp add: thresholdErrors_def thresholdEntries_def pushIf_def not_less)

lemma weightWarnings_warning: "m \<in> set (weightWarnings ws) \<Longrightarrow> isWarningOnly m"
  by (induction ws) (auto simp add: weightWarnings_def pushIf_def split: if_splits)

lemma weightWarnings_zero: "ZeroWeight cat \<in> set (weightWarnings ws) \<longleftrightarrow> (cat, 0) \<in> set ws"
  by (induction ws) (auto simp add: weightWarnings_def pushIf_def)

lemma orderingWarnings_warning: "m \<in> set (orderingWarnings t) \<Longrightarrow> isWarningOnly m"
  by (auto simp add: orderingWarnings_def pushIf_def split: if_splits)

lemma errors_not_warning: "m \<in> set (errors (validateConfig config)) \<Longrightarrow> \<not> isWarningOnly m"
  by (auto simp add: validateConfig_def Let_def pushIf_def
      dest: weightErrors_not_warning thresholdErrors_not_warning split: if_splits)

lemma warnings_warning: "m \<in> set (warnings (validateConfig config)) \<Longrightarrow> isWarningOnly m"
  by (auto simp add: validateConfig_def Let_def
      dest: weightWarnings_warning orderingWarnings_warning)

lemma valid_iff_no_error_condition:
  "valid (validateConfig config) \<longleftrightarrow>
     \<bar>js_sub (foldl js_add 0 (map snd (categoryWeights config))) 100\<bar> \<le> toDouble (1 / 100)
   \<and> weightErrors (categoryWeights config) = []
   \<and> thresholdErrors (progressThresholds config) = []
   \<and> inPercent (baselineProgress config)
   \<and> inPercent (maxProgress config)
   \<and> baselineProgress config < maxProgress config
   \<and> 0 \<le> defaultCategoryWeight config
   \<and> 0 \<le> defectPenalty config"
  by (simp add: validateConfig_def Let_def pushIf_def not_less not_le)

lemma weightWarnings_shape: "m \<in> set (weightWarnings ws) \<Longrightarrow> \<exists>cat. m = ZeroWeight cat"
  by (induction ws) (auto simp add: weightWarnings_def pushIf_def split: if_splits)

lemma orderingWarnings_no_zero_weight: "ZeroWeight cat \<notin> set (orderingWarnings t)"
  by (simp add: orderingWarnings_def pushIf_def)

lemma warnings_set:
  "set (warnings (validateConfig config))
   = set (weightWarnings (categoryWeights config)) \<union> set (orderingWarnings (progressThresholds config))"
  by (simp add: validateConfig_def Let_def)

lemma ordering_warnings_present:
  "(VerifiedNotAboveCompletedLater \<in> set (warnings (validateConfig config)))
     = (T_VERIFIED_NO_DEFECTS (progressThresholds config) \<le> T_COMPLETED_OK_LATER (progressThresholds config))"
  "(CompletedLaterNotAboveCompletedFirst \<in> set (warnings (validateConfig config)))
     = (T_COMPLETED_OK_LATER (progressThresholds config) \<le> T_COMPLETED_OK_FIRST (progressThresholds config))"
  "(HandledNotAboveDefect \<in> set (warnings (validateConfig config)))
     = (T_HANDLED (progressThresholds config) \<le> T_DEFECT_WORK_DONE (progressThresholds config))"
  "(DefectNotAboveInProgress \<in> set (warnings (validateConfig config)))
     = (T_DEFECT_WORK_DONE (progressThresholds config) \<le> T_IN_PROGRESS (progressThresholds config))"
  "(InProgressNotAbovePending \<in> set (warnings (validateConfig config)))
     = (T_IN_PROGRESS (progressThresholds config) \<le> T_PENDING (progressThresholds config))"
  "(PendingNotAboveNotStarted \<in> set (warnings (validateConfig config)))
     = (T_PENDING (progressThresholds config) \<le> T_NOT_STARTED (progressThresholds config))"
  by (auto simp add: warnings_set orderingWarnings_def pushIf_def dest: weightWarnings_shape)

lemma zero_weight_warning_present:
  "(ZeroWeight cat \<in> set (warnings (validateConfig config))) = ((cat, 0) \<in> set (categoryWeights config))"
  by (simp add: warnings_set weightWarnings_zero orderingWarnings_no_zero_weight)

text \<open>
  Claim C7, as amended. \<open>validateConfig\<close> answers \<open>valid = false\<close> exactly when the
  sum of the weights, accumulated in double arithmetic in the order of the entries,
  differs from 100 by more than the double 0.01 (the difference is a double as well), a
  weight is negative, a threshold is outside 0 .. 100, the baseline or the maximum
  progress is outside 0 .. 100, the baseline is not below the maximum, the default
  category weight is negative or the defect penalty is negative. \<open>valid\<close> says that
  the list of errors is empty; a violated threshold ordering and a weight of zero each put
  their message into the warnings, no such message is ever among the errors, and the
  warnings hold nothing else.
\<close>

theorem validateConfig_errors_and_warnings:
  "(valid (validateConfig config) \<longleftrightarrow>
       \<bar>js_sub (foldl js_add 0 (map snd (categoryWeights config))) 100\<bar> \<le> toDouble (1 / 100)
     \<and> (\<forall>(cat, weight) \<in> set (categoryWeights config). 0 \<le> weight)
     \<and> inPercent (T_VERIFIED_NO_DEFECTS (progressThresholds config))
     \<and> inPercent (T_CATEGORY_GRADUATED (progressThresholds config))
     \<and> inPercent (T_ITEM_FIXED (progressThresholds config))
     \<and> inPercent (T_COMPLETED_OK_LATER (progressThresholds config))
     \<and> inPercent (T_COMPLETED_OK_FIRST (progressThresholds config))
     \<and> inPercent (T_HANDLED (progressThresholds config))
     \<and> inPercent (T_COMPLETED_WITH_ISSUES (progressThresholds config))
     \<and> inPercent (T_DEFECT_WORK_DONE (progressThresholds config))
     \<and> inPercent (T_IN_PROGRESS (progressThresholds config))
     \<and> inPercent (T_PENDING (progressThresholds config))
     \<and> inPercent (T_UNKNOWN (progressThresholds config))
     \<and> inPercent (T_NOT_STARTED (progressThresholds config))
     \<and> inPercent (T_CATEGORY_NEVER_SEEN (progressThresholds config))
     \<and> inPercent (baselineProgress config)
     \<and> inPercent (maxProgress config)
     \<and> baselineProgress config < maxProgress config
     \<and> 0 \<le> defaultCategoryWeight config
     \<and> 0 \<le> defectPenalty config)
   \<and> valid (validateConfig config) = (errors (validateConfig config) = [])
   \<and> (\<forall>m \<in> set (errors (validateConfig config)). \<not> isWarningOnly m)
   \<and> (\<forall>m \<in> set (warnings (validateConfig config)). isWarningOnly m)
   \<and> (\<forall>cat. (ZeroWeight cat \<in> set (warnings (validateConfig config)))
              = ((cat, 0) \<in> set (categoryWeights config)))
   \<and> (VerifiedNotAboveCompletedLater \<in> set (warnings (validateConfig config)))
       = (T_VERIFIED_NO_DEFECTS (progressThresholds config) \<le> T_COMPLETED_OK_LATER (progressThresholds config))
   \<and> (CompletedLaterNotAboveCompletedFirst \<in> set (warnings (validateConfig config)))
       = (T_COMPLETED_OK_LATER (progressThresholds config) \<le> T_COMPLETED_OK_FIRST (progressThresholds config))
   \<and> (HandledNotAboveDefect \<in> set (warnings (validateConfig config)))
       = (T_HANDLED (progressThresholds config) \<le> T_DEFECT_WORK_DONE (progressThresholds config))
   \<and> (DefectNotAboveInProgress \<in> set (warnings (validateConfig config)))
       = (T_DEFECT_WORK_DONE (progressThresholds config) \<le> T_IN_PROGRESS (progressThresholds config))
   \<and> (InProgressNotAbovePending \<in> set (warnings (validateConfig config)))
       = (T_IN_PROGRESS (progressThresholds config) \<le> T_PENDING (progressThresholds config))
   \<and> (PendingNotAboveNotStarted \<in> set (warnings (validateConfig config)))
       = (T_PENDING (progressThresholds config) \<le> T_NOT_STARTED (progressThresholds config))"
proof -
  have "valid (validateConfig config) = (errors (validateConfig config) = [])"
    by (simp add: validateConfig_def Let_def)
  moreover have "\<forall>m \<in> set (errors (validateConfig config)). \<not> isWarningOnly m"
    using errors_not_warning by blast
  moreover have "\<forall>m \<in> set (warnings (validateConfig config)). isWarningOnly m"
    using warnings_warning by blast
  moreover note zero_weight_warning_present [of _ config] ordering_warnings_present [of config]
  ultimately show ?thesis
    unfolding valid_iff_no_error_condition weightErrors_empty thresholdErrors_empty by blast
qed

theorem validateConfig_errors_and_warnings_witness:
  "valid (validateConfig illOrderedConfig)
   \<and> errors (validateConfig illOrderedConfig) = []
   \<and> warnings (validateConfig illOrderedConfig)
      = [ZeroWeight (ascii ''ELECTRICAL''), PendingNotAboveNotStarted]
   \<and> \<not> valid (validateConfig (illOrderedConfig\<lparr>maxProgress := 20\<rparr>))
   \<and> \<not> valid (validateConfig boundaryConfig)"
  using validateConfig_errors_and_warnings [of illOrderedConfig]
    validateConfig_errors_and_warnings [of "illOrderedConfig\<lparr>maxProgress := 20\<rparr>"]
    validateConfig_errors_and_warnings [of boundaryConfig]
  by (simp add: illOrderedConfig_def zeroWeightConfig_def boundaryConfig_def DEFAULT_CONFIG_def
      validate_defs double_defs Let_def)

text \<open>
  Claim C7 as it was stated, with the tolerance read in exact arithmetic, fails at
  \<open>boundaryConfig\<close>: the values of its weights sum to less than 100.01, no weight is
  negative and everything else is as in the default configuration, yet the sum in double
  arithmetic is the double just above 100.01, its difference from 100 exceeds the double
  0.01, and the only error reported is that of the weight sum.
\<close>

theorem validateConfig_tolerance_counterexample:
  "\<bar>sum_list (map snd (categoryWeights boundaryConfig)) - 100\<bar> \<le> 1 / 100
   \<and> list_all (\<lambda>(cat, weight). 0 \<le> weight) (categoryWeights boundaryConfig)
   \<and> progressThresholds boundaryConfig = progressThresholds DEFAULT_CONFIG
   \<and> thresholdErrors (progressThresholds DEFAULT_CONFIG) = []
   \<and> baselineProgress boundaryConfig = 30
   \<and> maxProgress boundaryConfig = 95
   \<and> defaultCategoryWeight boundaryConfig = 10
   \<and> defectPenalty boundaryConfig = 5
   \<and> \<not> valid (validateConfig boundaryConfig)
   \<and> errors (validateConfig boundaryConfig)
      = [WeightSumNot100 (7037578105208177 / 70368744177664)]"
  by (simp add: boundaryConfig_def DEFAULT_CONFIG_def validate_defs double_defs Let_def)

text \<open>
  Claim C8. \<open>validateConfig\<close> applied to the configuration that \<open>loadConfig\<close> returns
  when no configuration file exists answers \<open>valid = true\<close> with an empty list of errors.
\<close>

theorem validateConfig_default_valid:
  "valid (validateConfig (loadConfig None)) = True
   \<and> errors (validateConfig (loadConfig None)) = []"
  by (simp add: loadConfig_def DEFAULT_CONFIG_def validate_defs double_defs Let_def)

subsection \<open>Scope aggregation\<close>

text \<open>
  Claim C2. The scope aggregation is to return the rounded weighted mean over the
  categories ever seen, with \<open>categoryWeights[c]\<close> as the weight of \<open>c\<close> whenever that
  weight is defined. \<open>zeroWeightConfig\<close> passes validation and defines the weight 0 for
  electrical work. With electrical work at 0 percent and plumbing at 100 percent the
  specified mean is 100, electrical work having no weight; the code falls back to the
  default weight 10 for it and returns 50.
\<close>

theorem overall_progress_zero_weight_counts:
  "valid (validateConfig zeroWeightConfig)
   \<and> map_of (categoryWeights zeroWeightConfig) (ascii ''ELECTRICAL'') = Some 0
   \<and> calculateOverallProgressWithAllCategories zeroWeightConfig twoCategoryProgress twoCategoriesSeen = 50
   \<and> specScopeProgress zeroWeightConfig twoCategoryProgress twoCategoriesSeen = 100"
proof -
  have "valid (validateConfig zeroWeightConfig)"
    by (simp add: zeroWeightConfig_def DEFAULT_CONFIG_def validate_defs double_defs Let_def)
  moreover
  have "calculateOverallProgressWithAllCategories zeroWeightConfig twoCategoryProgress twoCategoriesSeen = 50"
    by (simp add: zeroWeightConfig_def DEFAULT_CONFIG_def
        calculateOverallProgressWithAllCategories_def overallStep_def weightOf_def
        twoCategoryProgress_def twoCategoriesSeen_def ascii_def Math_round_def
        double_defs Let_def)
  moreover
  have "specScopeProgress zeroWeightConfig twoCategoryProgress twoCategoriesSeen = 100"
    by (simp add: zeroWeightConfig_def DEFAULT_CONFIG_def
        specScopeProgress_def specWeight_def categoryValue_def
        twoCategoryProgress_def twoCategoriesSeen_def ascii_def Math_round_def)
  moreover
  have "map_of (categoryWeights zeroWeightConfig) (ascii ''ELECTRICAL'') = Some 0"
    by (simp add: zeroWeightConfig_def ascii_def)
  ultimately show ?thesis by simp
qed

subsection \<open>The item history of the statistics route\<close>

lemma map_of_processItem_other:
  "k \<noteq> itemKey item \<Longrightarrow>
   map_of (itemHistory (processItem latestKeys i d st item)) k = map_of (itemHistory st) k"
  by (simp add: processItem_def Let_def update_conv')

lemma map_of_processItem_same:
  "\<exists>h. map_of (itemHistory (processItem latestKeys i d st item)) (itemKey item) = Some h
     \<and> isInLatestReport h = (itemKey item \<in> set latestKeys)
     \<and> (everDefect st (itemKey item) \<longrightarrow> hadDefectEver h)"
  by (auto simp add: processItem_def everDefect_def Let_def update_conv' split: option.splits)

lemma processItem_latestRecorded:
  "latestRecorded latestKeys st \<Longrightarrow> latestRecorded latestKeys (processItem latestKeys i d st item)"
  unfolding latestRecorded_def
  by (metis map_of_processItem_other map_of_processItem_same option.inject)

lemma processItems_latestRecorded:
  "latestRecorded latestKeys st \<Longrightarrow>
   latestRecorded latestKeys (foldl (processItem latestKeys i d) st items)"
  by (induction items arbitrary: st) (simp_all add: processItem_latestRecorded)

lemma processReports_latestRecorded:
  "latestRecorded latestKeys st \<Longrightarrow>
   latestRecorded latestKeys (processReports latestKeys i st reports)"
  by (induction reports arbitrary: st i)
     (simp_all add: processReport_def processItems_latestRecorded)

lemma initialState_latestRecorded: "latestRecorded latestKeys (initialState apartments)"
  by (simp add: latestRecorded_def initialState_def)

lemma set_fold_setAdd:
  "set (fold (\<lambda>item keys. setAdd (f item) keys) items acc) = set acc \<union> f ` set items"
  by (induction items arbitrary: acc) (auto simp add: setAdd_def)

lemma set_itemsInLatestReport:
  "set (itemsInLatestReport reports) = itemKey ` set (workItems (last reports))"
  by (simp add: itemsInLatestReport_def set_fold_setAdd)

text \<open>
  What the statistics route does for every logical item in the history it builds: when
  the key is among the keys of the latest report and the effective status is \<open>DEFECT\<close>
  or \<open>NOT_OK\<close>, the score is the threshold \<open>DEFECT_WORK_DONE\<close> of the configuration
  in force; when the key is not among them, the score is \<open>ITEM_FIXED\<close> of the exported
  constant \<open>PROGRESS_THRESHOLDS\<close>, the thresholds of the default configuration,
  whatever the last status and notes were and whatever the configuration in force is.
\<close>

lemma presence_rule_default_item_fixed:
  assumes "buildItemHistory apartments reports = Some st"
    and "map_of (itemHistory st) key = Some item"
  shows "(key \<in> itemKey ` set (workItems (last reports))
            \<and> (getEffectiveStatus (h_status item) (h_notes item) = DEFECT
               \<or> getEffectiveStatus (h_status item) (h_notes item) = NOT_OK)
          \<longrightarrow> calculateEffectiveProgress cfg (length reports - 1) item
                = T_DEFECT_WORK_DONE (progressThresholds cfg))
       \<and> (key \<notin> itemKey ` set (workItems (last reports))
          \<longrightarrow> calculateEffectiveProgress cfg (length reports - 1) item
                = T_ITEM_FIXED (progressThresholds DEFAULT_CONFIG))"
proof -
  from assms(1)
  have st: "st = processReports (itemsInLatestReport reports) 0 (initialState apartments) reports"
    by (simp add: buildItemHistory_def split: if_splits)
  have "latestRecorded (itemsInLatestReport reports) st"
    unfolding st by (rule processReports_latestRecorded) (rule initialState_latestRecorded)
  with assms(2)
  have present: "isInLatestReport item = (key \<in> itemKey ` set (workItems (last reports)))"
    by (simp add: latestRecorded_def set_itemsInLatestReport)
  show ?thesis
    by (auto simp add: present calculateEffectiveProgress_def scorer_defs
        PROGRESS_THRESHOLDS_def Let_def)
qed

lemma presence_rule_example:
  "itemProgress DEFAULT_CONFIG [ascii ''1''] defectThenGone (itemKey (socketItem DEFECT)) = Some 55
   \<and> itemProgress DEFAULT_CONFIG [ascii ''1''] defectThenGone (itemKey (tilingItem NOT_STARTED)) = Some 90
   \<and> itemKey (socketItem DEFECT) \<in> itemKey ` set (workItems (last defectThenGone))
   \<and> itemKey (tilingItem NOT_STARTED) \<notin> itemKey ` set (workItems (last defectThenGone))"
proof -
  let ?st = "processReports (itemsInLatestReport defectThenGone) 0 (initialState [ascii ''1'']) defectThenGone"
  have built: "buildItemHistory [ascii ''1''] defectThenGone = Some ?st"
    by (simp add: buildItemHistory_def defectThenGone_def)
  have socket: "map_of (itemHistory ?st) (itemKey (socketItem DEFECT))
                = Some (the (map_of (itemHistory ?st) (itemKey (socketItem DEFECT))))"
    by (simp add: defectThenGone_def stats_defs item_defs ascii_def)
  have tiling: "map_of (itemHistory ?st) (itemKey (tilingItem NOT_STARTED))
                = Some (the (map_of (itemHistory ?st) (itemKey (tilingItem NOT_STARTED))))"
    by (simp add: defectThenGone_def stats_defs item_defs ascii_def)
  show ?thesis
    using presence_rule_default_item_fixed [OF built socket, of DEFAULT_CONFIG]
      presence_rule_default_item_fixed [OF built tiling, of DEFAULT_CONFIG]
    by (simp add: itemProgress_def defectThenGone_def stats_defs item_defs ascii_def
        status_defs scorer_defs no_notes_clean DEFAULT_CONFIG_def)
qed

text \<open>
  Claim C1. A logical item whose key is in the latest report and whose effective status
  is \<open>DEFECT\<close> is to score the threshold \<open>DEFECT_WORK_DONE\<close>, and one whose key is
  absent from the latest report is to score the threshold \<open>ITEM_FIXED\<close>.
  \<open>reconfiguredConfig\<close> passes validation and sets \<open>ITEM_FIXED\<close> to 80 and
  \<open>DEFECT_WORK_DONE\<close> to 60. With it in force the socket, present with the status
  \<open>DEFECT\<close>, scores the configured 60, while the tiling, absent from the latest
  report, scores 90, the \<open>ITEM_FIXED\<close> of the default configuration, and not the
  configured 80.
\<close>

theorem absent_item_ignores_configured_item_fixed:
  "valid (validateConfig reconfiguredConfig)
   \<and> T_ITEM_FIXED (progressThresholds reconfiguredConfig) = 80
   \<and> T_DEFECT_WORK_DONE (progressThresholds reconfiguredConfig) = 60
   \<and> itemKey (socketItem DEFECT) \<in> itemKey ` set (workItems (last defectThenGone))
   \<and> itemKey (tilingItem NOT_STARTED) \<notin> itemKey ` set (workItems (last defectThenGone))
   \<and> itemProgress reconfiguredConfig [ascii ''1''] defectThenGone (itemKey (socketItem DEFECT))
      = Some 60
   \<and> itemProgress reconfiguredConfig [ascii ''1''] defectThenGone (itemKey (tilingItem NOT_STARTED))
      = Some 90"
proof -
  have "valid (validateConfig reconfiguredConfig)"
    by (simp add: reconfiguredConfig_def DEFAULT_CONFIG_def validate_defs double_defs Let_def)
  moreover
  have "itemProgress reconfiguredConfig [ascii ''1''] defectThenGone (itemKey (socketItem DEFECT))
        = Some 60
      \<and> itemProgress reconfiguredConfig [ascii ''1''] defectThenGone (itemKey (tilingItem NOT_STARTED))
        = Some 90
      \<and> itemKey (socketItem DEFECT) \<in> itemKey ` set (workItems (last defectThenGone))
      \<and> itemKey (tilingItem NOT_STARTED) \<notin> itemKey ` set (workItems (last defectThenGone))"
    by (simp add: itemProgress_def defectThenGone_def stats_defs item_defs ascii_def
        status_defs scorer_defs no_notes_clean reconfiguredConfig_def DEFAULT_CONFIG_def)
  ultimately show ?thesis
    by (simp add: reconfiguredConfig_def DEFAULT_CONFIG_def)
qed

lemma processItem_everDefect:
  assumes "everDefect st k"
  shows "everDefect (processItem latestKeys i d st item) k"
proof (cases "k = itemKey item")
  case True
  with assms map_of_processItem_same [of latestKeys i d st item]
  show ?thesis by (auto simp add: everDefect_def)
next
  case False
  with assms show ?thesis by (simp add: everDefect_def map_of_processItem_other)
qed

lemma processItems_everDefect:
  "everDefect st k \<Longrightarrow> everDefect (foldl (processItem latestKeys i d) st items) k"
  by (induction items arbitrary: st) (simp_all add: processItem_everDefect)

lemma processReports_everDefect:
  "everDefect st k \<Longrightarrow> everDefect (processReports latestKeys i st reports) k"
  by (induction reports arbitrary: st i)
     (simp_all add: processReport_def processItems_everDefect)

lemma processReports_append:
  "processReports latestKeys i st (xs @ ys) =
   processReports latestKeys (i + length xs) (processReports latestKeys i st xs) ys"
  by (induction xs arbitrary: i st) simp_all

lemma take_split: "n \<le> m \<Longrightarrow> take m xs = take n xs @ drop n (take m xs)"
  by (metis append_take_drop_id min.absorb1 take_take)

lemma processReports_prefix_everDefect:
  assumes "n \<le> m" and "everDefect (processReports latestKeys 0 st (take n reports)) k"
  shows "everDefect (processReports latestKeys 0 st (take m reports)) k"
proof -
  have "processReports latestKeys 0 st (take m reports) =
        processReports latestKeys (0 + length (take n reports))
          (processReports latestKeys 0 st (take n reports)) (drop n (take m reports))"
    by (subst take_split [OF assms(1)]) (rule processReports_append)
  with assms(2) show ?thesis
    by (simp add: processReports_everDefect)
qed

subsection \<open>The histories of the timeline route\<close>

lemma updateHistory_flagged:
  "flagged history key \<Longrightarrow> flagged (updateHistory i history item) key"
  by (auto simp add: flagged_def updateHistory_def Let_def update_conv' split: option.splits)

lemma timelineItem_flagged:
  "scopeFlagged st scope key \<Longrightarrow> scopeFlagged (timelineItem i st item) scope key"
  by (cases scope)
     (auto simp add: scopeFlagged_def scopeHistory_def timelineItem_def updateDevelopment_def
        Let_def update_conv' updateHistory_flagged split: option.splits)

lemma timelineItems_flagged:
  "scopeFlagged st scope key \<Longrightarrow> scopeFlagged (foldl (timelineItem i) st items) scope key"
  by (induction items arbitrary: st) (simp_all add: timelineItem_flagged)

lemma timelineReports_flagged:
  "scopeFlagged st scope key \<Longrightarrow> scopeFlagged (timelineReports i st reports) scope key"
  by (induction reports arbitrary: st i) (simp_all add: timelineItems_flagged)

lemma timelineReports_append:
  "timelineReports i st (xs @ ys) =
   timelineReports (i + length xs) (timelineReports i st xs) ys"
  by (induction xs arbitrary: i st) simp_all

lemma timelineReports_prefix_flagged:
  assumes "n \<le> m" and "scopeFlagged (timelineReports 0 st (take n reports)) scope key"
  shows "scopeFlagged (timelineReports 0 st (take m reports)) scope key"
proof -
  have "timelineReports 0 st (take m reports) =
        timelineReports (0 + length (take n reports))
          (timelineReports 0 st (take n reports)) (drop n (take m reports))"
    by (subst take_split [OF assms(1)]) (rule timelineReports_append)
  with assms(2) show ?thesis
    by (simp add: timelineReports_flagged)
qed

text \<open>
  Claim C5. The sticky defect flag is monotonic over the fold that builds the history:
  take any sequence of reports in chronological order and process its first \<open>n\<close>
  reports; if the flag of a logical item is set then, it is set after the first \<open>m\<close>
  reports for every \<open>m\<close> from \<open>n\<close> on, whatever statuses and notes the later records
  of the item carry. This holds for \<open>hadDefectEver\<close> in the history of the statistics
  route and for \<open>hadDefect\<close> in each history of the timeline route.
\<close>

theorem hadDefectEver_monotonic:
  assumes "n \<le> m"
  shows "(everDefect (processReports latestKeys 0 (initialState apartments) (take n reports)) key
          \<longrightarrow> everDefect (processReports latestKeys 0 (initialState apartments) (take m reports)) key)
       \<and> (scopeFlagged (timelineReports 0 (initialTimeline apartmentIds) (take n reports)) scope tkey
          \<longrightarrow> scopeFlagged (timelineReports 0 (initialTimeline apartmentIds) (take m reports)) scope tkey)"
  using assms processReports_prefix_everDefect timelineReports_prefix_flagged by blast

theorem hadDefectEver_monotonic_witness:
  "everDefect (processReports [] 0 (initialState [ascii ''1'']) (take 2 defectThenClean))
     (itemKey (socketItem DEFECT))
   \<and> map_option h_status
        (map_of (itemHistory (processReports [] 0 (initialState [ascii ''1'']) (take 2 defectThenClean)))
           (itemKey (socketItem DEFECT)))
      = Some COMPLETED_OK
   \<and> scopeFlagged (timelineReports 0 (initialTimeline [ascii ''a1'']) (take 2 defectThenClean))
        (Apartment (ascii ''a1'')) (timelineKey (socketItem DEFECT))
   \<and> scopeFlagged (timelineReports 0 (initialTimeline [ascii ''a1'']) (take 2 defectThenClean))
        Development (timelineKey (fenceItem NOT_OK))
   \<and> scopeFlagged (timelineReports 0 (initialTimeline [ascii ''a1'']) (take 2 defectThenClean))
        Project (timelineKey (fenceItem NOT_OK))"
proof -
  have one: "(1::nat) \<le> 2" by simp
  have stats: "everDefect (processReports [] 0 (initialState [ascii ''1'']) (take 1 defectThenClean))
                 (itemKey (socketItem DEFECT))"
    by (simp add: everDefect_def defectThenClean_def stats_defs item_defs ascii_def
        status_defs no_notes_clean)
  have apt: "scopeFlagged (timelineReports 0 (initialTimeline [ascii ''a1'']) (take 1 defectThenClean))
               (Apartment (ascii ''a1'')) (timelineKey (socketItem DEFECT))"
    by (simp add: scopeFlagged_def scopeHistory_def flagged_def defectThenClean_def
        timeline_defs item_defs ascii_def status_defs no_notes_clean)
  have dev: "scopeFlagged (timelineReports 0 (initialTimeline [ascii ''a1'']) (take 1 defectThenClean))
               Development (timelineKey (fenceItem NOT_OK))"
    by (simp add: scopeFlagged_def scopeHistory_def flagged_def defectThenClean_def
        timeline_defs item_defs ascii_def status_defs no_notes_clean)
  have proj: "scopeFlagged (timelineReports 0 (initialTimeline [ascii ''a1'']) (take 1 defectThenClean))
               Project (timelineKey (fenceItem NOT_OK))"
    by (simp add: scopeFlagged_def scopeHistory_def flagged_def defectThenClean_def
        timeline_defs item_defs ascii_def status_defs no_notes_clean)
  have clean: "map_option h_status
        (map_of (itemHistory (processReports [] 0 (initialState [ascii ''1'']) (take 2 defectThenClean)))
           (itemKey (socketItem DEFECT)))
      = Some COMPLETED_OK"
    by (simp add: defectThenClean_def stats_defs item_defs ascii_def status_defs no_notes_clean
        numeral_2_eq_2)
  show ?thesis
    using hadDefectEver_monotonic [OF one, of "[]" "[ascii ''1'']" defectThenClean
        "itemKey (socketItem DEFECT)" "[ascii ''a1'']" "Apartment (ascii ''a1'')"
        "timelineKey (socketItem DEFECT)"]
      hadDefectEver_monotonic [OF one, of "[]" "[ascii ''1'']" defectThenClean
        "itemKey (socketItem DEFECT)" "[ascii ''a1'']" Development
        "timelineKey (fenceItem NOT_OK)"]
      hadDefectEver_monotonic [OF one, of "[]" "[ascii ''1'']" defectThenClean
        "itemKey (socketItem DEFECT)" "[ascii ''a1'']" Project
        "timelineKey (fenceItem NOT_OK)"]
      stats apt dev proj clean
    by blast
qed

text \<open>
  Claim C6. An item with no notes appears in four successive reports, first in the first
  of them, with the statuses \<open>NOT_STARTED\<close>, \<open>IN_PROGRESS\<close>, \<open>COMPLETED\<close> and
  \<open>COMPLETED_OK\<close>. Under the default thresholds the scores the statistics route gives
  it after the first one, two, three and four reports are 5, 30, 75 and 90, which do not
  decrease.
\<close>

theorem status_sequence_scores:
  "(let rep = (\<lambda>d s. \<lparr>reportDate = d, workItems = [it\<lparr>item_status := s, item_notes := None\<rparr>]\<rparr>);
        reports = [rep d1 NOT_STARTED, rep d2 IN_PROGRESS, rep d3 COMPLETED, rep d4 COMPLETED_OK]
    in map (\<lambda>n. itemProgress DEFAULT_CONFIG apartments (take n reports) (itemKey it)) [1, 2, 3, 4])
     = [Some 5, Some 30, Some 75, Some 90]
   \<and> sorted [5, 30, 75, 90 :: rat]"
  by (simp add: itemProgress_def stats_defs scorer_defs status_defs no_notes_clean
      DEFAULT_CONFIG_def eval_nat_numeral)

end
